theory Spec2Isabelle
  imports Complex_Main
begin

section \<open>Time\<close>

text \<open>
  A Go \<open>time.Time\<close> is modelled as an integer count of nanoseconds on one linear clock
  whose origin is the zero value \<open>time.Time{}\<close>. A \<open>time.Duration\<close> is a signed 64-bit
  count of nanoseconds: \<open>Time.Sub\<close> (and so \<open>time.Since\<close>) saturates at the two ends of
  that range, while the multiplication of two durations wraps around.
\<close>

type_synonym time = int

definition zeroTime :: time where
  "zeroTime = 0"

definition maxDuration :: int where
  "maxDuration = 2 ^ 63 - 1"

definition minDuration :: int where
  "minDuration = - (2 ^ 63)"

definition Minute :: int where
  "Minute = 60000000000"

definition wrap64 :: "int \<Rightarrow> int" where
  "wrap64 x = (x + 2 ^ 63) mod 2 ^ 64 - 2 ^ 63"

definition timeSub :: "time \<Rightarrow> time \<Rightarrow> int" where
  "timeSub t u = max minDuration (min maxDuration (t - u))"

definition timeSince :: "time \<Rightarrow> time \<Rightarrow> int" where
  "timeSince now t = timeSub now t"

text \<open>\<open>time.Duration(config.Interval) * time.Minute\<close>\<close>

definition intervalDuration :: "int \<Rightarrow> int" where
  "intervalDuration interval = wrap64 (interval * Minute)"

section \<open>Configuration and state records\<close>

text \<open>
  Field names that Go repeats in several structs carry a prefix here, since record
  fields are constants of the theory: \<open>repoName\<close> and \<open>repoAlertOnMismatch\<close> are
  \<open>GitOpsRepository.Name\<close> and \<open>GitOpsRepository.AlertOnMismatch\<close>,
  \<open>resourceNamespace\<close> is \<open>gitOpsState.namespace\<close>.
\<close>

record GitOpsRepository =
  repoName :: string
  repoURL :: string
  repoAlertOnMismatch :: bool

record GitOpsConfig =
  AlertOnMismatch :: bool
  Repositories :: "GitOpsRepository list"

record LonghornThresholds =
  VolumeUsagePercent :: real
  VolumeCapacityCritical :: int

record Config =
  WebhookUrl :: string
  Interval :: int
  AlertThresholds :: LonghornThresholds
  GitOps :: GitOpsConfig

record unitState =
  hasError :: bool
  lastSeen :: time
  lastMessage :: string
  firstError :: time
  alertSent :: bool

record longhornUnitState = unitState +
  resourceType :: string
  capacity :: int
  usage :: int
  robustness :: string
  node :: string
  namespace :: string

record nodeResourceState = unitState +
  cpuCapacity :: int
  cpuRequests :: int
  cpuUsagePercent :: real
  nodeName :: string

record gitOpsState = unitState +
  repositoryName :: string
  resourceKind :: string
  resourceName :: string
  resourceNamespace :: string
  mismatchType :: string
  expectedHash :: string
  actualHash :: string

record AlertField =
  fieldName :: string
  fieldValue :: string
  fieldInline :: bool

record Alert =
  Title :: string
  Description :: string
  Fields :: "AlertField list"
  Logs :: string

record HttpPost =
  postUrl :: string
  postContentType :: string
  postBody :: string

text \<open>
  The package-level variables. \<open>webhookCalls\<close> is the trace of the alerts handed to
  \<open>sendWebhookMessage\<close>, oldest first; \<open>posts\<close> is the trace of the HTTP requests it
  sent. \<open>requestBuilds\<close> says whether \<open>http.NewRequest\<close> accepts the configured URL.
\<close>

record world =
  config :: Config
  isLeader :: bool
  requestBuilds :: bool
  podStates :: "string \<rightharpoonup> unitState"
  nodeStates :: "string \<rightharpoonup> unitState"
  nodeResourceStates :: "string \<rightharpoonup> nodeResourceState"
  longhornVolumeStates :: "string \<rightharpoonup> longhornUnitState"
  longhornReplicaStates :: "string \<rightharpoonup> longhornUnitState"
  longhornEngineStates :: "string \<rightharpoonup> longhornUnitState"
  longhornNodeStates :: "string \<rightharpoonup> longhornUnitState"
  longhornBackupStates :: "string \<rightharpoonup> longhornUnitState"
  gitOpsStates :: "string \<rightharpoonup> gitOpsState"
  webhookCalls :: "Alert list"
  posts :: "HttpPost list"

record Pod =
  podNamespace :: string
  podName :: string

record Node =
  nodeObjName :: string

section \<open>Health state store\<close>

definition podKeyOf :: "Pod \<Rightarrow> string" where
  "podKeyOf pod = podNamespace pod @ ''/'' @ podName pod"

definition updatePodState :: "world \<Rightarrow> time \<Rightarrow> Pod \<Rightarrow> bool \<Rightarrow> string \<Rightarrow> world" where
  "updatePodState w now pod hasErr errorMessage =
     (let podKey = podKeyOf pod in
      case podStates w podKey of
        None \<Rightarrow>
          w\<lparr>podStates := (podStates w)(podKey \<mapsto>
              \<lparr>hasError = hasErr, lastSeen = now, lastMessage = errorMessage,
               firstError = now, alertSent = False\<rparr>)\<rparr>
      | Some prevState \<Rightarrow>
          (let prevState1 =
                 (if hasErr \<and> \<not> hasError prevState
                  then prevState\<lparr>firstError := now, alertSent := False\<rparr>
                  else if \<not> hasErr
                  then prevState\<lparr>firstError := zeroTime, alertSent := False\<rparr>
                  else prevState)
           in w\<lparr>podStates := (podStates w)(podKey \<mapsto>
                 prevState1\<lparr>hasError := hasErr, lastSeen := now,
                            lastMessage := errorMessage\<rparr>)\<rparr>))"

definition updateNodeState :: "world \<Rightarrow> time \<Rightarrow> Node \<Rightarrow> bool \<Rightarrow> string \<Rightarrow> world" where
  "updateNodeState w now nd hasErr errorMessage =
     (let nodeKey = nodeObjName nd in
      case nodeStates w nodeKey of
        None \<Rightarrow>
          w\<lparr>nodeStates := (nodeStates w)(nodeKey \<mapsto>
              \<lparr>hasError = hasErr, lastSeen = now, lastMessage = errorMessage,
               firstError = now, alertSent = False\<rparr>)\<rparr>
      | Some prevState \<Rightarrow>
          (let prevState1 =
                 (if hasErr \<and> \<not> hasError prevState
                  then prevState\<lparr>firstError := now, alertSent := False\<rparr>
                  else if \<not> hasErr
                  then prevState\<lparr>firstError := zeroTime, alertSent := False\<rparr>
                  else prevState)
           in w\<lparr>nodeStates := (nodeStates w)(nodeKey \<mapsto>
                 prevState1\<lparr>hasError := hasErr, lastSeen := now,
                            lastMessage := errorMessage\<rparr>)\<rparr>))"

text \<open>
  The state updates below build \<open>newState\<close> with zero \<open>firstError\<close> and false
  \<open>alertSent\<close> and then overwrite the two fields; \<open>armFields\<close> is that shared
  if-chain of the non-GitOps families.
\<close>

definition armFields :: "time \<Rightarrow> bool \<Rightarrow> 'a unitState_scheme option \<Rightarrow> time \<times> bool" where
  "armFields now hasErr prev =
     (case prev of
        None \<Rightarrow> (now, False)
      | Some prevState \<Rightarrow>
          (if hasErr \<and> \<not> hasError prevState then (now, False)
           else if \<not> hasErr then (zeroTime, False)
           else (firstError prevState, alertSent prevState)))"

definition updateNodeResourceState ::
  "world \<Rightarrow> time \<Rightarrow> string \<Rightarrow> bool \<Rightarrow> string \<Rightarrow> int \<Rightarrow> int \<Rightarrow> real \<Rightarrow> world" where
  "updateNodeResourceState w now nm hasErr errorMessage cap reqs pct =
     (let (fe, sent) = armFields now hasErr (nodeResourceStates w nm) in
      w\<lparr>nodeResourceStates := (nodeResourceStates w)(nm \<mapsto>
          \<lparr>hasError = hasErr, lastSeen = now, lastMessage = errorMessage,
           firstError = fe, alertSent = sent,
           cpuCapacity = cap, cpuRequests = reqs, cpuUsagePercent = pct,
           nodeName = nm\<rparr>)\<rparr>)"

definition updateLonghornVolumeState ::
  "world \<Rightarrow> time \<Rightarrow> string \<Rightarrow> bool \<Rightarrow> string \<Rightarrow> string \<Rightarrow> string \<Rightarrow> int \<Rightarrow> int \<Rightarrow> string \<Rightarrow> world" where
  "updateLonghornVolumeState w now key hasErr errorMessage state robust cap actualSize ns =
     (let (fe, sent) = armFields now hasErr (longhornVolumeStates w key) in
      w\<lparr>longhornVolumeStates := (longhornVolumeStates w)(key \<mapsto>
          \<lparr>hasError = hasErr, lastSeen = now, lastMessage = errorMessage,
           firstError = fe, alertSent = sent,
           resourceType = ''volume'', capacity = cap, usage = actualSize,
           robustness = robust, node = [], namespace = ns\<rparr>)\<rparr>)"

definition updateLonghornReplicaState ::
  "world \<Rightarrow> time \<Rightarrow> string \<Rightarrow> bool \<Rightarrow> string \<Rightarrow> string \<Rightarrow> string \<Rightarrow> world" where
  "updateLonghornReplicaState w now key hasErr errorMessage currentState ns =
     (let (fe, sent) = armFields now hasErr (longhornReplicaStates w key) in
      w\<lparr>longhornReplicaStates := (longhornReplicaStates w)(key \<mapsto>
          \<lparr>hasError = hasErr, lastSeen = now, lastMessage = errorMessage,
           firstError = fe, alertSent = sent,
           resourceType = ''replica'', capacity = 0, usage = 0,
           robustness = [], node = [], namespace = ns\<rparr>)\<rparr>)"

definition updateLonghornEngineState ::
  "world \<Rightarrow> time \<Rightarrow> string \<Rightarrow> bool \<Rightarrow> string \<Rightarrow> string \<Rightarrow> string \<Rightarrow> world" where
  "updateLonghornEngineState w now key hasErr errorMessage currentState ns =
     (let (fe, sent) = armFields now hasErr (longhornEngineStates w key) in
      w\<lparr>longhornEngineStates := (longhornEngineStates w)(key \<mapsto>
          \<lparr>hasError = hasErr, lastSeen = now, lastMessage = errorMessage,
           firstError = fe, alertSent = sent,
           resourceType = ''engine'', capacity = 0, usage = 0,
           robustness = [], node = [], namespace = ns\<rparr>)\<rparr>)"

definition updateLonghornNodeState ::
  "world \<Rightarrow> time \<Rightarrow> string \<Rightarrow> bool \<Rightarrow> string \<Rightarrow> string \<Rightarrow> world" where
  "updateLonghornNodeState w now key hasErr errorMessage nm =
     (let (fe, sent) = armFields now hasErr (longhornNodeStates w key) in
      w\<lparr>longhornNodeStates := (longhornNodeStates w)(key \<mapsto>
          \<lparr>hasError = hasErr, lastSeen = now, lastMessage = errorMessage,
           firstError = fe, alertSent = sent,
           resourceType = ''node'', capacity = 0, usage = 0,
           robustness = [], node = nm, namespace = []\<rparr>)\<rparr>)"

definition updateLonghornBackupState ::
  "world \<Rightarrow> time \<Rightarrow> string \<Rightarrow> bool \<Rightarrow> string \<Rightarrow> string \<Rightarrow> string \<Rightarrow> world" where
  "updateLonghornBackupState w now key hasErr errorMessage state ns =
     (let (fe, sent) = armFields now hasErr (longhornBackupStates w key) in
      w\<lparr>longhornBackupStates := (longhornBackupStates w)(key \<mapsto>
          \<lparr>hasError = hasErr, lastSeen = now, lastMessage = errorMessage,
           firstError = fe, alertSent = sent,
           resourceType = ''backup'', capacity = 0, usage = 0,
           robustness = [], node = [], namespace = ns\<rparr>)\<rparr>)"

text \<open>
  \<open>updateGitOpsState\<close> has its own if-chain: the first branch also fires when the
  previous entry was in error and the message text differs, whatever \<open>hasError\<close> is
  now; when neither branch fires the two fields keep the zero values of \<open>newState\<close>.
\<close>

definition updateGitOpsState ::
  "world \<Rightarrow> time \<Rightarrow> string \<Rightarrow> bool \<Rightarrow> string \<Rightarrow> string \<Rightarrow> string \<Rightarrow> string \<Rightarrow> string \<Rightarrow> string
     \<Rightarrow> string \<Rightarrow> string \<Rightarrow> world" where
  "updateGitOpsState w now key hasErr errorMessage repository kind nm ns mismatch expHash actHash =
     (let prev = gitOpsStates w key;
          (fe, sent) =
            (case prev of
               None \<Rightarrow> (now, False)
             | Some prevState \<Rightarrow>
                 (if (\<not> hasError prevState \<and> hasErr)
                     \<or> (hasError prevState \<and> lastMessage prevState \<noteq> errorMessage)
                  then (now, False)
                  else if hasError prevState
                  then (firstError prevState, alertSent prevState)
                  else (zeroTime, False)))
      in w\<lparr>gitOpsStates := (gitOpsStates w)(key \<mapsto>
          \<lparr>hasError = hasErr, lastSeen = now, lastMessage = errorMessage,
           firstError = fe, alertSent = sent,
           repositoryName = repository, resourceKind = kind, resourceName = nm,
           resourceNamespace = ns, mismatchType = mismatch,
           expectedHash = expHash, actualHash = actHash\<rparr>)\<rparr>)"

section \<open>Alert gate\<close>

definition zeroUnitState :: unitState where
  "zeroUnitState = \<lparr>hasError = False, lastSeen = zeroTime, lastMessage = [],
                    firstError = zeroTime, alertSent = False\<rparr>"

text \<open>Go's two-value map read \<open>state, exists = m[key]\<close>.\<close>

definition readState :: "(string \<rightharpoonup> unitState) \<Rightarrow> string \<Rightarrow> unitState \<times> bool" where
  "readState m key = (case m key of None \<Rightarrow> (zeroUnitState, False) | Some s \<Rightarrow> (s, True))"

definition shouldSendAlert :: "world \<Rightarrow> time \<Rightarrow> string \<Rightarrow> string \<Rightarrow> bool" where
  "shouldSendAlert w now alertType key =
     (let (state, exists) =
            (if alertType = ''pod'' then readState (podStates w) key
             else if alertType = ''node'' then readState (nodeStates w) key
             else if alertType = ''node_resource''
             then readState (map_option unitState.truncate \<circ> nodeResourceStates w) key
             else if alertType = ''gitops''
             then readState (map_option unitState.truncate \<circ> gitOpsStates w) key
             else (zeroUnitState, False))
      in if \<not> exists \<or> \<not> hasError state \<or> alertSent state then False
         else if Interval (config w) = 0 then True
         else intervalDuration (Interval (config w)) \<le> timeSince now (firstError state))"

definition shouldSendLonghornAlert :: "world \<Rightarrow> time \<Rightarrow> string \<Rightarrow> string \<Rightarrow> bool" where
  "shouldSendLonghornAlert w now resType key =
     (let found =
            (if resType = ''volume'' then longhornVolumeStates w key
             else if resType = ''replica'' then longhornReplicaStates w key
             else if resType = ''engine'' then longhornEngineStates w key
             else if resType = ''node'' then longhornNodeStates w key
             else if resType = ''backup'' then longhornBackupStates w key
             else None)
      in case found of
           None \<Rightarrow> False
         | Some state \<Rightarrow>
             if \<not> hasError state \<or> alertSent state then False
             else if Interval (config w) = 0 then True
             else intervalDuration (Interval (config w)) \<le> timeSince now (firstError state))"

text \<open>
  The loop over \<open>config.GitOps.Repositories\<close>: true when some configured repository
  of that name has \<open>AlertOnMismatch\<close> false, which makes the gate return false.
\<close>

fun repositoryMutes :: "GitOpsRepository list \<Rightarrow> string \<Rightarrow> bool" where
  "repositoryMutes [] nm = False"
| "repositoryMutes (repo # repos) nm =
     (if repoName repo = nm \<and> \<not> repoAlertOnMismatch repo then True
      else repositoryMutes repos nm)"

definition shouldSendGitOpsAlert :: "world \<Rightarrow> time \<Rightarrow> string \<Rightarrow> bool" where
  "shouldSendGitOpsAlert w now key =
     (case gitOpsStates w key of
        None \<Rightarrow> False
      | Some state \<Rightarrow>
          if \<not> hasError state \<or> alertSent state then False
          else if \<not> AlertOnMismatch (GitOps (config w)) then False
          else if repositoryMutes (Repositories (GitOps (config w))) (repositoryName state)
          then False
          else if Interval (config w) = 0 then True
          else intervalDuration (Interval (config w)) \<le> timeSince now (firstError state))"

definition markAlertSent :: "world \<Rightarrow> string \<Rightarrow> world" where
  "markAlertSent w podKey =
     (case podStates w podKey of
        None \<Rightarrow> w
      | Some state \<Rightarrow> w\<lparr>podStates := (podStates w)(podKey \<mapsto> state\<lparr>alertSent := True\<rparr>)\<rparr>)"

definition markNodeAlertSent :: "world \<Rightarrow> string \<Rightarrow> world" where
  "markNodeAlertSent w nodeKey =
     (case nodeStates w nodeKey of
        None \<Rightarrow> w
      | Some state \<Rightarrow> w\<lparr>nodeStates := (nodeStates w)(nodeKey \<mapsto> state\<lparr>alertSent := True\<rparr>)\<rparr>)"

definition markLonghornAlertSent :: "world \<Rightarrow> string \<Rightarrow> string \<Rightarrow> world" where
  "markLonghornAlertSent w resType key =
     (if resType = ''volume'' then
        (case longhornVolumeStates w key of None \<Rightarrow> w
         | Some state \<Rightarrow>
             w\<lparr>longhornVolumeStates := (longhornVolumeStates w)(key \<mapsto> state\<lparr>alertSent := True\<rparr>)\<rparr>)
      else if resType = ''replica'' then
        (case longhornReplicaStates w key of None \<Rightarrow> w
         | Some state \<Rightarrow>
             w\<lparr>longhornReplicaStates := (longhornReplicaStates w)(key \<mapsto> state\<lparr>alertSent := True\<rparr>)\<rparr>)
      else if resType = ''engine'' then
        (case longhornEngineStates w key of None \<Rightarrow> w
         | Some state \<Rightarrow>
             w\<lparr>longhornEngineStates := (longhornEngineStates w)(key \<mapsto> state\<lparr>alertSent := True\<rparr>)\<rparr>)
      else if resType = ''node'' then
        (case longhornNodeStates w key of None \<Rightarrow> w
         | Some state \<Rightarrow>
             w\<lparr>longhornNodeStates := (longhornNodeStates w)(key \<mapsto> state\<lparr>alertSent := True\<rparr>)\<rparr>)
      else if resType = ''backup'' then
        (case longhornBackupStates w key of None \<Rightarrow> w
         | Some state \<Rightarrow>
             w\<lparr>longhornBackupStates := (longhornBackupStates w)(key \<mapsto> state\<lparr>alertSent := True\<rparr>)\<rparr>)
      else w)"

definition markGitOpsAlertSent :: "world \<Rightarrow> string \<Rightarrow> world" where
  "markGitOpsAlertSent w key =
     (case gitOpsStates w key of
        None \<Rightarrow> w
      | Some state \<Rightarrow> w\<lparr>gitOpsStates := (gitOpsStates w)(key \<mapsto> state\<lparr>alertSent := True\<rparr>)\<rparr>)"

section \<open>Sink adapter\<close>

definition version :: string where
  "version = ''0.1.4''"

text \<open>The three non-ASCII literals, byte for byte as the source file holds them.\<close>

definition redCircle :: string where
  "redCircle = [CHR 0xC3, CHR 0xB0, CHR 0xC5, CHR 0xB8, CHR 0xE2, CHR 0x80, CHR 0x9D,
                CHR 0xC2, CHR 0xB4]"

definition greenCircle :: string where
  "greenCircle = [CHR 0xC3, CHR 0xB0, CHR 0xC5, CHR 0xB8, CHR 0xC5, CHR 0xB8, CHR 0xC2,
                  CHR 0xA2]"

definition inSyncText :: string where
  "inSyncText = [CHR 0xC3, CHR 0xA2, CHR 0xC5, CHR 0x93, CHR 0xE2, CHR 0x80, CHR 0xA6]
                @ '' In Sync''"

definition isSuccessField :: "AlertField \<Rightarrow> bool" where
  "isSuccessField field =
     ((fieldName field = ''State''
         \<and> (fieldValue field = ''Running'' \<or> fieldValue field = ''Completed''))
      \<or> (fieldName field = ''Status'' \<and> fieldValue field = inSyncText))"

text \<open>The colour loop with its \<open>break\<close>: the first success field decides.\<close>

fun colorAndEmoji :: "AlertField list \<Rightarrow> string \<times> string" where
  "colorAndEmoji [] = (''16711680'', redCircle)"
| "colorAndEmoji (field # rest) =
     (if isSuccessField field then (''65280'', greenCircle) else colorAndEmoji rest)"

definition boolText :: "bool \<Rightarrow> string" where
  "boolText b = (if b then ''true'' else ''false'')"

definition fieldJSON :: "AlertField \<Rightarrow> string" where
  \<open>fieldJSON field =
     ''{"name":"'' @ fieldName field @ ''","value":"'' @ fieldValue field
       @ ''","inline":'' @ boolText (fieldInline field) @ ''}''\<close>

text \<open>The loop \<open>for i, field := range alert.Fields\<close>, with the index \<open>i\<close> counted up.\<close>

fun fieldsLoop :: "nat \<Rightarrow> AlertField list \<Rightarrow> string \<Rightarrow> string" where
  "fieldsLoop i [] acc = acc"
| "fieldsLoop i (field # rest) acc =
     fieldsLoop (Suc i) rest ((if 0 < i then acc @ '','' else acc) @ fieldJSON field)"

definition fieldsJSONOf :: "Alert \<Rightarrow> string" where
  \<open>fieldsJSONOf alert =
     (let fieldsJSON = fieldsLoop 0 (Fields alert) ''['' @ '']'' in
      if Logs alert \<noteq> []
      then butlast fieldsJSON
             @ '',{"name":"Container Logs","value":"'' @ Logs alert @ ''","inline":false}]''
      else fieldsJSON)\<close>

definition tab :: string where
  "tab = [CHR 0x09]"

definition jsonPayload :: "string \<Rightarrow> Alert \<Rightarrow> string" where
  \<open>jsonPayload stamp alert =
     (let (color, emoji) = colorAndEmoji (Fields alert);
          title = emoji @ '' '' @ Title alert in
      ''{\<newline>'' @ tab @ tab @ ''"embeds": [{\<newline>''
      @ tab @ tab @ tab @ ''"title": "'' @ title @ ''",\<newline>''
      @ tab @ tab @ tab @ ''"description": "'' @ Description alert @ ''",\<newline>''
      @ tab @ tab @ tab @ ''"color": '' @ color @ '',\<newline>''
      @ tab @ tab @ tab @ ''"fields": '' @ fieldsJSONOf alert @ '',\<newline>''
      @ tab @ tab @ tab @ ''"timestamp": "'' @ stamp @ ''",\<newline>''
      @ tab @ tab @ tab @ ''"footer": {\<newline>''
      @ tab @ tab @ tab @ tab @ ''"text": "sun v'' @ version @ ''",\<newline>''
      @ tab @ tab @ tab @ tab
      @ ''"icon_url": "https://avatars.githubusercontent.com/u/221393700"\<newline>''
      @ tab @ tab @ tab @ ''}\<newline>''
      @ tab @ tab @ ''}]\<newline>''
      @ tab @ ''}'')\<close>

text \<open>
  \<open>stamp\<close> is the text of \<open>time.Now().Format(time.RFC3339)\<close>. The function returns
  at once when the process is not the leader, and again when \<open>http.NewRequest\<close> fails;
  otherwise the request is handed to the HTTP client.
\<close>

definition sendWebhookMessage :: "world \<Rightarrow> string \<Rightarrow> Alert \<Rightarrow> world" where
  "sendWebhookMessage w0 stamp alert =
     (let w = w0\<lparr>webhookCalls := webhookCalls w0 @ [alert]\<rparr> in
      if \<not> isLeader w then w
      else if \<not> requestBuilds w then w
      else w\<lparr>posts := posts w @
               [\<lparr>postUrl = WebhookUrl (config w), postContentType = ''application/json'',
                 postBody = jsonPayload stamp alert\<rparr>]\<rparr>)"

section \<open>The sink beside the leader election\<close>

text \<open>
  \<open>sendWebhookMessage\<close> holds \<open>leaderLock\<close> only while it reads \<open>isLeader\<close> and
  releases it before it builds the request; the callbacks of \<open>runLeaderElection\<close> write
  the flag under the same lock from another goroutine. One call is therefore two
  atomic steps: the locked read, which returns when the flag is false, and the rest of
  the body, which builds the payload and posts it.
\<close>

datatype sendPc = AtLeaderCheck | AtRequest | Returned

definition sendStep :: "string \<Rightarrow> Alert \<Rightarrow> world \<times> sendPc \<Rightarrow> world \<times> sendPc" where
  "sendStep stamp alert st =
     (case st of
        (w0, AtLeaderCheck) \<Rightarrow>
          (let w = w0\<lparr>webhookCalls := webhookCalls w0 @ [alert]\<rparr> in
           if \<not> isLeader w then (w, Returned) else (w, AtRequest))
      | (w, AtRequest) \<Rightarrow>
          if \<not> requestBuilds w then (w, Returned)
          else (w\<lparr>posts := posts w @
                     [\<lparr>postUrl = WebhookUrl (config w), postContentType = ''application/json'',
                       postBody = jsonPayload stamp alert\<rparr>]\<rparr>, Returned)
      | (w, Returned) \<Rightarrow> (w, Returned))"

definition OnStartedLeading :: "world \<Rightarrow> world" where
  "OnStartedLeading w = w\<lparr>isLeader := True\<rparr>"

definition OnStoppedLeading :: "world \<Rightarrow> world" where
  "OnStoppedLeading w = w\<lparr>isLeader := False\<rparr>"

text \<open>
  A schedule is the order in which the steps of one call and the callbacks of the
  leader election take place.
\<close>

datatype event = SendStep | StartedLeading | StoppedLeading

fun runSchedule :: "event list \<Rightarrow> string \<Rightarrow> Alert \<Rightarrow> world \<times> sendPc \<Rightarrow> world \<times> sendPc" where
  "runSchedule [] stamp alert st = st"
| "runSchedule (SendStep # rest) stamp alert st =
     runSchedule rest stamp alert (sendStep stamp alert st)"
| "runSchedule (StartedLeading # rest) stamp alert st =
     runSchedule rest stamp alert (OnStartedLeading (fst st), snd st)"
| "runSchedule (StoppedLeading # rest) stamp alert st =
     runSchedule rest stamp alert (OnStoppedLeading (fst st), snd st)"

section \<open>Longhorn volumes\<close>

definition digitChar :: "nat \<Rightarrow> char" where
  "digitChar d = ''0123456789'' ! d"

function showNat :: "nat \<Rightarrow> string" where
  "showNat n = (if n < 10 then [digitChar n] else showNat (n div 10) @ [digitChar (n mod 10)])"
  by pat_completeness auto
termination
  by (relation "measure id") auto

declare showNat.simps [simp del]

definition showInt :: "int \<Rightarrow> string" where
  "showInt i = (if i < 0 then ''-'' @ showNat (nat (- i)) else showNat (nat i))"

definition mkField :: "string \<Rightarrow> string \<Rightarrow> bool \<Rightarrow> AlertField" where
  "mkField n v i = \<lparr>fieldName = n, fieldValue = v, fieldInline = i\<rparr>"

text \<open>
  A \<open>float64\<close> is carried as the real number it denotes, so that comparing two of them
  is comparing reals. The rounded arithmetic of the source is not rewritten over the
  reals: what it computes is given by \<open>floatOps\<close>. \<open>percentOf a c\<close> is the value of
  \<open>float64(a) / float64(c) * 100\<close>, \<open>gigabytesOf x\<close> the value of
  \<open>float64(x) / (1024 * 1024 * 1024)\<close>, and \<open>fmtFloat N\<close> the text that \<open>fmt.Sprintf\<close>
  gives for \<open>%.Nf\<close>.
\<close>

record floatOps =
  percentOf :: "int \<Rightarrow> int \<Rightarrow> real"
  gigabytesOf :: "int \<Rightarrow> real"
  fmtFloat :: "nat \<Rightarrow> real \<Rightarrow> string"

definition sendLonghornVolumeAlert ::
  "floatOps \<Rightarrow> world \<Rightarrow> string \<Rightarrow> string \<Rightarrow> string \<Rightarrow> string \<Rightarrow> string \<Rightarrow> int \<Rightarrow> int
     \<Rightarrow> string \<Rightarrow> string \<Rightarrow> world" where
  "sendLonghornVolumeAlert fl w stamp nm ns state robust cap actualSize errorMessage alertType =
     (let usagePercent =
            (if 0 < cap \<and> 0 < actualSize then percentOf fl actualSize cap else 0);
          capacityGB = gigabytesOf fl cap;
          usageGB = gigabytesOf fl actualSize;
          fields0 = [mkField ''Volume'' nm True, mkField ''Namespace'' ns True,
                     mkField ''State'' state True, mkField ''Robustness'' robust True,
                     mkField ''Alert Type'' alertType True];
          fields1 = (if 0 < cap
                     then fields0 @ [mkField ''Capacity'' (fmtFloat fl 2 capacityGB @ '' GB'') True]
                     else fields0);
          fields2 = (if 0 < actualSize
                     then fields1 @ [mkField ''Usage''
                            (fmtFloat fl 2 usageGB @ '' GB ('' @ fmtFloat fl 1 usagePercent
                               @ ''%)'') True]
                     else fields1)
      in sendWebhookMessage w stamp
           \<lparr>Title = ''Longhorn Volume Alert on '' @ ns,
            Description = ''Volume '' @ nm @ '': '' @ errorMessage,
            Fields = fields2, Logs = []\<rparr>)"

definition volumeRecoveryAlert :: "string \<Rightarrow> string \<Rightarrow> Alert" where
  "volumeRecoveryAlert nm ns =
     \<lparr>Title = ''Longhorn Volume Recovery'',
      Description = ''Volume '' @ nm @ '' in namespace '' @ ns @ '' has recovered'',
      Fields = [mkField ''Volume'' nm True, mkField ''Namespace'' ns True,
                mkField ''State'' ''Healthy'' True],
      Logs = []\<rparr>"

definition checkLonghornVolumeRecovery :: "world \<Rightarrow> string \<Rightarrow> string \<Rightarrow> string \<Rightarrow> string \<Rightarrow> world" where
  "checkLonghornVolumeRecovery w stamp key nm ns =
     (case longhornVolumeStates w key of
        None \<Rightarrow> w
      | Some prevState \<Rightarrow>
          if hasError prevState \<and> alertSent prevState
          then sendWebhookMessage w stamp (volumeRecoveryAlert nm ns)
          else w)"

text \<open>
  The verdict of \<open>processLonghornVolumeStatus\<close>: \<open>(hasError, errorMessage, alertType)\<close>
  after the state switch and the capacity check.
\<close>

definition volumeVerdict ::
  "floatOps \<Rightarrow> Config \<Rightarrow> string \<Rightarrow> string \<Rightarrow> int \<Rightarrow> int \<Rightarrow> bool \<times> string \<times> string" where
  "volumeVerdict fl cfg state robust cap actualSize =
     (let v1 =
            (if state = ''detached'' \<or> state = ''attached'' then
               (if robust = ''healthy'' then (False, [], [])
                else if robust = ''degraded'' then (True, ''Volume is degraded'', ''degraded'')
                else if robust = ''faulted'' then (True, ''Volume is faulted'', ''faulted'')
                else (False, [], []))
             else if state = ''creating'' \<or> state = ''attaching'' \<or> state = ''detaching''
             then (False, [], [])
             else (True, ''Volume in unknown state: '' @ state, ''unknown_state''))
      in if 0 < cap \<and> 0 < actualSize then
           (let usagePercent = percentOf fl actualSize cap;
                remaining = cap - actualSize
            in if VolumeUsagePercent (AlertThresholds cfg) < usagePercent
               then (True, ''Volume usage critical: '' @ fmtFloat fl 1 usagePercent @ ''% used'',
                     ''usage_critical'')
               else if remaining < VolumeCapacityCritical (AlertThresholds cfg)
               then (True, ''Volume capacity critical: '' @ showInt remaining
                             @ '' bytes remaining'', ''capacity_critical'')
               else v1)
         else v1)"

text \<open>
  \<open>nowU\<close> is the clock read by the state update, \<open>nowG\<close> the one read by the gate,
  \<open>stamp\<close> the time text of the webhook payload.
\<close>

definition processLonghornVolumeStatus ::
  "floatOps \<Rightarrow> world \<Rightarrow> time \<Rightarrow> time \<Rightarrow> string \<Rightarrow> string \<Rightarrow> string \<Rightarrow> string \<Rightarrow> string
     \<Rightarrow> int \<Rightarrow> int \<Rightarrow> world" where
  "processLonghornVolumeStatus fl w nowU nowG stamp nm ns state robust cap actualSize =
     (let key = ns @ ''/'' @ nm;
          (hasErr, errorMessage, alertType) =
             volumeVerdict fl (config w) state robust cap actualSize;
          w1 = updateLonghornVolumeState w nowU key hasErr errorMessage state robust cap
                 actualSize ns
      in if hasErr \<and> shouldSendLonghornAlert w1 nowG ''volume'' key
         then markLonghornAlertSent
                (sendLonghornVolumeAlert fl w1 stamp nm ns state robust cap actualSize
                   errorMessage alertType)
                ''volume'' key
         else if \<not> hasErr then checkLonghornVolumeRecovery w1 stamp key nm ns
         else w1)"

section \<open>Untyped object trees\<close>

text \<open>
  The trees that \<open>unstructured.Unstructured\<close> holds. A Go map is an association list
  read with \<open>map_of\<close>; an integer leaf is \<open>JInt\<close>, a \<open>float64\<close> leaf is \<open>JFloat\<close>
  and carries its decimal text.
\<close>

datatype jv =
    JNull
  | JBool bool
  | JInt int
  | JFloat string
  | JString string
  | JArray "jv list"
  | JObject "(string \<times> jv) list"

type_synonym object = "(string \<times> jv) list"

datatype 'a nested = Found 'a | Missing | Malformed

text \<open>
  The accessors of apimachinery's \<open>unstructured\<close> package. \<open>Found\<close> is the result with
  \<open>found = true\<close>; \<open>Missing\<close> is \<open>found = false\<close> without an error, \<open>Malformed\<close> is
  \<open>found = false\<close> with the accessor error of a value of the wrong type.
\<close>

fun nestedFieldNoCopy :: "jv \<Rightarrow> string list \<Rightarrow> jv nested" where
  "nestedFieldNoCopy val [] = Found val"
| "nestedFieldNoCopy val (field # rest) =
     (case val of
        JNull \<Rightarrow> Missing
      | JObject m \<Rightarrow>
          (case map_of m field of
             None \<Rightarrow> Missing
           | Some v \<Rightarrow> nestedFieldNoCopy v rest)
      | _ \<Rightarrow> Malformed)"

definition NestedMap :: "object \<Rightarrow> string list \<Rightarrow> object nested" where
  "NestedMap obj path =
     (case nestedFieldNoCopy (JObject obj) path of
        Found (JObject m) \<Rightarrow> Found m
      | Found _ \<Rightarrow> Malformed
      | Missing \<Rightarrow> Missing
      | Malformed \<Rightarrow> Malformed)"

definition NestedString :: "object \<Rightarrow> string list \<Rightarrow> string nested" where
  "NestedString obj path =
     (case nestedFieldNoCopy (JObject obj) path of
        Found (JString s) \<Rightarrow> Found s
      | Found _ \<Rightarrow> Malformed
      | Missing \<Rightarrow> Missing
      | Malformed \<Rightarrow> Malformed)"

fun stringValues :: "object \<Rightarrow> (string \<times> string) list option" where
  "stringValues [] = Some []"
| "stringValues ((k, v) # rest) =
     (case v of
        JString str \<Rightarrow> map_option ((#) (k, str)) (stringValues rest)
      | _ \<Rightarrow> None)"

definition NestedStringMap :: "object \<Rightarrow> string list \<Rightarrow> (string \<times> string) list nested" where
  "NestedStringMap obj path =
     (case NestedMap obj path of
        Found m \<Rightarrow> (case stringValues m of Some strMap \<Rightarrow> Found strMap | None \<Rightarrow> Malformed)
      | Missing \<Rightarrow> Missing
      | Malformed \<Rightarrow> Malformed)"

definition isFound :: "'a nested \<Rightarrow> bool" where
  "isFound r = (case r of Found _ \<Rightarrow> True | _ \<Rightarrow> False)"

text \<open>The value a caller keeps when it drops \<open>found\<close> and the error: nil for a map.\<close>

definition mapOrNil :: "('k \<times> 'v) list nested \<Rightarrow> ('k \<times> 'v) list" where
  "mapOrNil r = (case r of Found m \<Rightarrow> m | _ \<Rightarrow> [])"

definition getNestedString :: "object \<Rightarrow> string list \<Rightarrow> string" where
  "getNestedString obj path = (case NestedString obj path of Found s \<Rightarrow> s | _ \<Rightarrow> [])"

definition GetKind :: "object \<Rightarrow> string" where
  "GetKind obj = getNestedString obj [''kind'']"

definition GetName :: "object \<Rightarrow> string" where
  "GetName obj = getNestedString obj [''metadata'', ''name'']"

definition GetNamespace :: "object \<Rightarrow> string" where
  "GetNamespace obj = getNestedString obj [''metadata'', ''namespace'']"

section \<open>Resource comparison\<close>

definition cleanLabels :: "(string \<times> string) list \<Rightarrow> (string \<times> string) list" where
  "cleanLabels labels =
     filter (\<lambda>(k, v). \<not> (k = ''app.kubernetes.io/managed-by'' \<or> k = ''helm.sh/chart''
                           \<or> k = ''app.kubernetes.io/instance''
                           \<or> k = ''app.kubernetes.io/version'')) labels"

definition cleanAnnotations :: "(string \<times> string) list \<Rightarrow> (string \<times> string) list" where
  "cleanAnnotations annotations =
     filter (\<lambda>(k, v). \<not> (k = ''kubectl.kubernetes.io/last-applied-configuration''
                           \<or> k = ''deployment.kubernetes.io/revision''
                           \<or> k = ''meta.helm.sh/release-name''
                           \<or> k = ''meta.helm.sh/release-namespace'')) annotations"

definition stringMapValue :: "(string \<times> string) list \<Rightarrow> jv" where
  "stringMapValue m = JObject (map (\<lambda>(k, v). (k, JString v)) m)"

text \<open>
  \<open>marshal\<close> stands for \<open>json.Marshal\<close> followed by the conversion to a string. A nil
  \<open>*Unstructured\<close> is \<open>None\<close>.
\<close>

definition resourcesEqual :: "(jv \<Rightarrow> string) \<Rightarrow> object option \<Rightarrow> object option \<Rightarrow> bool" where
  "resourcesEqual marshal dryRunResult actual =
     (case (dryRunResult, actual) of
        (None, None) \<Rightarrow> True
      | (None, Some a) \<Rightarrow> False
      | (Some d, None) \<Rightarrow> False
      | (Some d, Some a) \<Rightarrow>
          (let dryRunSpec = NestedMap d [''spec''];
               actualSpec = NestedMap a [''spec'']
           in if isFound dryRunSpec \<noteq> isFound actualSpec then False
              else if isFound dryRunSpec
                      \<and> marshal (JObject (mapOrNil dryRunSpec))
                          \<noteq> marshal (JObject (mapOrNil actualSpec))
              then False
              else
                (let dryRunMeta = NestedMap d [''metadata''];
                     actualMeta = NestedMap a [''metadata'']
                 in if isFound dryRunMeta \<and> isFound actualMeta then
                      (let dryRunLabels =
                             mapOrNil (NestedStringMap (mapOrNil dryRunMeta) [''labels'']);
                           actualLabels =
                             mapOrNil (NestedStringMap (mapOrNil actualMeta) [''labels''])
                       in if marshal (stringMapValue (cleanLabels dryRunLabels))
                               \<noteq> marshal (stringMapValue (cleanLabels actualLabels))
                          then False
                          else
                            (let dryRunAnnotations =
                                   mapOrNil (NestedStringMap (mapOrNil dryRunMeta)
                                               [''annotations'']);
                                 actualAnnotations =
                                   mapOrNil (NestedStringMap (mapOrNil actualMeta)
                                               [''annotations''])
                             in \<not> (marshal (stringMapValue (cleanAnnotations dryRunAnnotations))
                                      \<noteq> marshal (stringMapValue
                                                   (cleanAnnotations actualAnnotations)))))
                    else True)))"

section \<open>GitOps comparison against the cluster\<close>

record GVR =
  gvrGroup :: string
  gvrVersion :: string
  gvrResource :: string

datatype getResult = GetFound object | GetNotFound | GetFailed

text \<open>
  The cluster as the comparison sees it: the discovery cache once initialised, the
  dynamic client's \<open>Get\<close> and its server-side \<open>Apply\<close> with \<open>DryRun = All\<close>. The
  second argument of both calls is the namespace, \<open>None\<close> for a cluster-scoped call;
  \<open>applyDryRun\<close> gives \<open>None\<close> when the call returns an error.
\<close>

record cluster =
  gvrCache :: "string \<rightharpoonup> GVR"
  clusterGet :: "GVR \<Rightarrow> string option \<Rightarrow> string \<Rightarrow> getResult"
  applyDryRun :: "GVR \<Rightarrow> string option \<Rightarrow> string \<Rightarrow> object \<Rightarrow> object option"

datatype cmpError = UnknownKind string | GetFailure string string | NilDereference

definition getGVRForKind :: "cluster \<Rightarrow> string \<Rightarrow> cmpError + GVR" where
  "getGVRForKind cl kind =
     (case gvrCache cl kind of None \<Rightarrow> Inl (UnknownKind kind) | Some gvr \<Rightarrow> Inr gvr)"

definition scopeOf :: "string \<Rightarrow> string option" where
  "scopeOf ns = (if ns \<noteq> [] then Some ns else None)"

definition resourcesAreDifferent :: "(jv \<Rightarrow> string) \<Rightarrow> cluster \<Rightarrow> object \<Rightarrow> object \<Rightarrow> bool" where
  "resourcesAreDifferent marshal cl expected actual =
     (case getGVRForKind cl (GetKind expected) of
        Inl err \<Rightarrow> False
      | Inr gvr \<Rightarrow>
          (case applyDryRun cl gvr (scopeOf (GetNamespace expected)) (GetName expected) expected of
             None \<Rightarrow> False
           | Some result \<Rightarrow> \<not> resourcesEqual marshal (Some result) (Some actual)))"

text \<open>The \<open>extra\<close> branch reads \<open>actual\<close>, which panics on nil: that is \<open>None\<close> here.\<close>

definition getResourceDescription :: "object \<Rightarrow> object option \<Rightarrow> string \<Rightarrow> string option" where
  "getResourceDescription expected actual mismatch =
     (if mismatch = ''missing''
      then Some (GetKind expected @ ''/'' @ GetName expected @ '' is missing from cluster'')
      else if mismatch = ''different''
      then Some (GetKind expected @ ''/'' @ GetName expected
                   @ '' differs between Git and cluster'')
      else if mismatch = ''extra''
      then (case actual of
              None \<Rightarrow> None
            | Some a \<Rightarrow> Some (GetKind a @ ''/'' @ GetName a
                                @ '' exists in cluster but not in Git''))
      else Some (''Unknown mismatch type: '' @ mismatch))"

definition sendGitOpsMismatchAlert ::
  "world \<Rightarrow> string \<Rightarrow> string \<Rightarrow> object option \<Rightarrow> object option \<Rightarrow> string \<Rightarrow> world" where
  "sendGitOpsMismatchAlert w stamp repository expected actual mismatch =
     (let (nm, kind, ns) =
            (case expected of
               Some e \<Rightarrow> (GetName e, GetKind e, GetNamespace e)
             | None \<Rightarrow>
                 (case actual of
                    Some a \<Rightarrow> (GetName a, GetKind a, GetNamespace a)
                  | None \<Rightarrow> ([], [], [])));
          (title, description) =
            (if mismatch = ''missing''
             then (''GitOps Alert: Missing Resource in '' @ repository,
                   ''Resource '' @ kind @ ''/'' @ nm @ '' is defined in Git but missing from cluster'')
             else if mismatch = ''different''
             then (''GitOps Alert: Resource Drift in '' @ repository,
                   ''Resource '' @ kind @ ''/'' @ nm @ '' differs between Git and cluster'')
             else if mismatch = ''extra''
             then (''GitOps Alert: Extra Resource in '' @ repository,
                   ''Resource '' @ kind @ ''/'' @ nm @ '' exists in cluster but not in Git'')
             else (''GitOps Alert: Unknown Issue in '' @ repository,
                   ''Unknown mismatch type '' @ mismatch @ '' for resource '' @ kind @ ''/'' @ nm));
          fields0 = [mkField ''Repository'' repository True, mkField ''Resource Kind'' kind True,
                     mkField ''Resource Name'' nm True];
          fields1 = (if ns \<noteq> [] then fields0 @ [mkField ''Namespace'' ns True] else fields0);
          fields2 = fields1 @ [mkField ''Mismatch Type'' mismatch True];
          fields3 =
            (if mismatch = ''missing''
             then fields2 @ [mkField ''Action Required''
                    ''Apply the resource to the cluster or remove from Git'' False]
             else if mismatch = ''different''
             then fields2 @ [mkField ''Action Required''
                    ''Review differences and either update Git or apply changes to cluster'' False]
             else if mismatch = ''extra''
             then fields2 @ [mkField ''Action Required''
                    ''Remove resource from cluster or add to Git repository'' False]
             else fields2)
      in sendWebhookMessage w stamp
           \<lparr>Title = title, Description = description, Fields = fields3, Logs = []\<rparr>)"

definition gitOpsRecoveryAlert :: "string \<Rightarrow> string \<Rightarrow> string \<Rightarrow> string \<Rightarrow> Alert" where
  "gitOpsRecoveryAlert repository kind nm ns =
     (let fields0 = [mkField ''Repository'' repository True, mkField ''Resource Kind'' kind True,
                     mkField ''Resource Name'' nm True];
          fields1 = (if ns \<noteq> [] then fields0 @ [mkField ''Namespace'' ns True] else fields0)
      in \<lparr>Title = ''GitOps Recovery: '' @ repository,
          Description = ''Resource '' @ kind @ ''/'' @ nm
                          @ '' is now in sync between Git and cluster'',
          Fields = fields1 @ [mkField ''Status'' inSyncText True], Logs = []\<rparr>)"

definition checkGitOpsRecovery ::
  "world \<Rightarrow> string \<Rightarrow> string \<Rightarrow> string \<Rightarrow> string \<Rightarrow> string \<Rightarrow> string \<Rightarrow> world" where
  "checkGitOpsRecovery w stamp key repository kind nm ns =
     (case gitOpsStates w key of
        None \<Rightarrow> w
      | Some prevState \<Rightarrow>
          if hasError prevState \<and> alertSent prevState
          then sendWebhookMessage w stamp (gitOpsRecoveryAlert repository kind nm ns)
          else w)"

definition gitOpsKey :: "string \<Rightarrow> object \<Rightarrow> string" where
  "gitOpsKey repository manifest =
     repository @ ''/'' @ GetNamespace manifest @ ''/'' @ GetKind manifest @ ''/''
       @ GetName manifest"

definition processGitOpsMismatch ::
  "world \<Rightarrow> time \<Rightarrow> time \<Rightarrow> string \<Rightarrow> string \<Rightarrow> object \<Rightarrow> object option \<Rightarrow> string
     \<Rightarrow> cmpError option \<times> world" where
  "processGitOpsMismatch w nowU nowG stamp repository expected actual mismatch =
     (let kind = GetKind expected; nm = GetName expected; ns = GetNamespace expected;
          key = gitOpsKey repository expected
      in case getResourceDescription expected actual mismatch of
           None \<Rightarrow> (Some NilDereference, w)
         | Some description \<Rightarrow>
             (let w1 = updateGitOpsState w nowU key True
                         (''Resource '' @ mismatch @ '': '' @ description)
                         repository kind nm ns mismatch [] []
              in if shouldSendGitOpsAlert w1 nowG key
                 then (None, markGitOpsAlertSent
                               (sendGitOpsMismatchAlert w1 stamp repository (Some expected)
                                  actual mismatch) key)
                 else (None, w1)))"

definition processGitOpsMatch ::
  "world \<Rightarrow> time \<Rightarrow> string \<Rightarrow> string \<Rightarrow> object \<Rightarrow> cmpError option \<times> world" where
  "processGitOpsMatch w nowU stamp repository manifest =
     (let kind = GetKind manifest; nm = GetName manifest; ns = GetNamespace manifest;
          key = gitOpsKey repository manifest;
          w1 = checkGitOpsRecovery w stamp key repository kind nm ns
      in (None, updateGitOpsState w1 nowU key False [] repository kind nm ns [] [] []))"

definition compareManifestWithCluster ::
  "(jv \<Rightarrow> string) \<Rightarrow> cluster \<Rightarrow> world \<Rightarrow> time \<Rightarrow> time \<Rightarrow> string \<Rightarrow> string \<Rightarrow> object
     \<Rightarrow> cmpError option \<times> world" where
  "compareManifestWithCluster marshal cl w nowU nowG stamp repository manifest =
     (let kind = GetKind manifest; nm = GetName manifest; ns = GetNamespace manifest
      in case getGVRForKind cl kind of
           Inl err \<Rightarrow> (Some err, w)
         | Inr gvr \<Rightarrow>
             (case clusterGet cl gvr (scopeOf ns) nm of
                GetNotFound \<Rightarrow>
                  processGitOpsMismatch w nowU nowG stamp repository manifest None ''missing''
              | GetFailed \<Rightarrow> (Some (GetFailure kind nm), w)
              | GetFound clusterResource \<Rightarrow>
                  if resourcesAreDifferent marshal cl manifest clusterResource
                  then processGitOpsMismatch w nowU nowG stamp repository manifest
                         (Some clusterResource) ''different''
                  else processGitOpsMatch w nowU stamp repository manifest))"

section \<open>Copying environment example files\<close>

text \<open>
  The file tree under the directory that holds \<open>rootPath\<close>: regular files and
  directories. A file carries whether it can be read and its contents; a directory
  carries whether it can be listed, whether entries can be created in it, and its
  entries in the order \<open>filepath.Walk\<close> visits them, which is the byte order of the
  names.
\<close>

fun strLess :: "string \<Rightarrow> string \<Rightarrow> bool" where
  "strLess [] [] = False"
| "strLess [] (y # ys) = True"
| "strLess (x # xs) [] = False"
| "strLess (x # xs) (y # ys) = ((of_char x :: nat) < of_char y \<or> (x = y \<and> strLess xs ys))"

datatype fsnode = File bool string | Dir bool bool "(string \<times> fsnode) list"

datatype walkError = LstatFailed | ListFailed | ReadFailed | WriteFailed

definition envExampleName :: string where
  "envExampleName = ''.env.example''"

definition envName :: string where
  "envName = ''.env''"

text \<open>\<open>os.Stat\<close> of a name in a directory succeeds when an entry has that name.\<close>

definition hasName :: "string \<Rightarrow> (string \<times> fsnode) list \<Rightarrow> bool" where
  "hasName n es = (n \<in> set (map fst es))"

text \<open>A new entry takes its place in the byte order of the names.\<close>

fun insertEntry :: "string \<times> fsnode \<Rightarrow> (string \<times> fsnode) list \<Rightarrow> (string \<times> fsnode) list" where
  "insertEntry x [] = [x]"
| "insertEntry x (y # ys) = (if strLess (fst x) (fst y) then x # y # ys else y # insertEntry x ys)"

text \<open>The directory after the walk: with the \<open>.env\<close> file the walk wrote, if any.\<close>

definition withCreated :: "string option \<Rightarrow> (string \<times> fsnode) list \<Rightarrow> (string \<times> fsnode) list" where
  "withCreated cr es = (case cr of None \<Rightarrow> es | Some content \<Rightarrow> insertEntry (envName, File True content) es)"

text \<open>
  The walk over the entries of one directory, with the callback of
  \<open>copyEnvExampleFiles\<close> inlined. \<open>wr\<close> says whether the directory takes new entries;
  \<open>envThere\<close> is what \<open>os.Stat(envPath)\<close> finds there: true when the directory
  listed a \<open>.env\<close> or this walk has written one. The result is the error that
  stopped the walk, if any, the entries with their subdirectories walked so far, and
  the contents written to \<open>.env\<close>, if any. A file that is not \<open>.env.example\<close> and a
  directory (which the callback skips) cost nothing; a directory that cannot be listed
  hands its error to the callback, which returns it; a read or write error stops the
  walk.
\<close>

fun walkEntries :: "bool \<Rightarrow> bool \<Rightarrow> (string \<times> fsnode) list
                     \<Rightarrow> walkError option \<times> (string \<times> fsnode) list \<times> string option" where
  "walkEntries wr envThere [] = (None, [], None)"
| "walkEntries wr envThere ((n, File rd content) # rest) =
     (if n \<noteq> envExampleName then
        (case walkEntries wr envThere rest of (e, rest', cr) \<Rightarrow> (e, (n, File rd content) # rest', cr))
      else if envThere then
        (case walkEntries wr envThere rest of (e, rest', cr) \<Rightarrow> (e, (n, File rd content) # rest', cr))
      else if \<not> rd then (Some ReadFailed, (n, File rd content) # rest, None)
      else if \<not> wr then (Some WriteFailed, (n, File rd content) # rest, None)
      else (case walkEntries wr True rest of
              (e, rest', cr) \<Rightarrow> (e, (n, File rd content) # rest', Some content)))"
| "walkEntries wr envThere ((n, Dir l w es) # rest) =
     (if \<not> l then (Some ListFailed, (n, Dir l w es) # rest, None)
      else
        (case walkEntries w (hasName envName es) es of
           (Some err, es', cr') \<Rightarrow> (Some err, (n, Dir l w (withCreated cr' es')) # rest, None)
         | (None, es', cr') \<Rightarrow>
             (case walkEntries wr envThere rest of
                (e, rest', cr) \<Rightarrow> (e, (n, Dir l w (withCreated cr' es')) # rest', cr))))"

text \<open>
  \<open>filepath.Walk\<close> starts with \<open>os.Lstat(rootPath)\<close>: \<open>rootPath\<close> is given by the
  directory that holds it and its base name, so that the sibling of a root that is
  itself a file stays inside the tree. A name that is missing gives the error of
  \<open>Lstat\<close>, which the callback returns.
\<close>

fun walkRoot :: "bool \<Rightarrow> bool \<Rightarrow> string \<Rightarrow> (string \<times> fsnode) list
                  \<Rightarrow> walkError option \<times> (string \<times> fsnode) list \<times> string option" where
  "walkRoot wr envThere rootName [] = (Some LstatFailed, [], None)"
| "walkRoot wr envThere rootName ((n, c) # rest) =
     (if n = rootName then
        (case walkEntries wr envThere [(n, c)] of (e, one, cr) \<Rightarrow> (e, one @ rest, cr))
      else
        (case walkRoot wr envThere rootName rest of (e, rest', cr) \<Rightarrow> (e, (n, c) # rest', cr)))"



section \<open>Well-formed JSON text\<close>

text \<open>
  The grammar of RFC 8259 as a pushdown recogniser that reads the text once: the mode
  says what may come next, the stack holds the open objects and arrays. Bytes from
  \<open>0x80\<close> on are accepted inside strings as they are.
\<close>

datatype container = InObject | InArray

datatype mode =
    ExpectValue
  | ExpectValueOrEnd
  | ExpectKeyOrEnd
  | ExpectKey
  | ExpectColon
  | AfterValue
  | InString bool
  | InEscape bool
  | InUnicode bool nat
  | InLiteral string
  | NumMinus
  | NumZero
  | NumInt
  | NumDot
  | NumFrac
  | NumExp
  | NumExpSign
  | NumExpDigits

definition isWs :: "char \<Rightarrow> bool" where
  "isWs c = (c = CHR '' '' \<or> c = CHR 0x09 \<or> c = CHR 0x0A \<or> c = CHR 0x0D)"

definition isDigit :: "char \<Rightarrow> bool" where
  "isDigit c = (c \<in> set ''0123456789'')"

definition isHex :: "char \<Rightarrow> bool" where
  "isHex c = (c \<in> set ''0123456789abcdefABCDEF'')"

definition isControl :: "char \<Rightarrow> bool" where
  "isControl c = ((of_char c :: nat) < 32)"

definition afterValue :: "container list \<Rightarrow> char \<Rightarrow> (mode \<times> container list) option" where
  "afterValue stack c =
     (if isWs c then Some (AfterValue, stack)
      else case stack of
             [] \<Rightarrow> None
           | InObject # rest \<Rightarrow>
               if c = CHR '','' then Some (ExpectKey, stack)
               else if c = CHR ''}'' then Some (AfterValue, rest)
               else None
           | InArray # rest \<Rightarrow>
               if c = CHR '','' then Some (ExpectValue, stack)
               else if c = CHR '']'' then Some (AfterValue, rest)
               else None)"

definition startValue :: "container list \<Rightarrow> char \<Rightarrow> (mode \<times> container list) option" where
  "startValue stack c =
     (if c = CHR ''{'' then Some (ExpectKeyOrEnd, InObject # stack)
      else if c = CHR ''['' then Some (ExpectValueOrEnd, InArray # stack)
      else if c = CHR 0x22 then Some (InString False, stack)
      else if c = CHR ''-'' then Some (NumMinus, stack)
      else if c = CHR ''0'' then Some (NumZero, stack)
      else if isDigit c then Some (NumInt, stack)
      else if c = CHR ''t'' then Some (InLiteral ''rue'', stack)
      else if c = CHR ''f'' then Some (InLiteral ''alse'', stack)
      else if c = CHR ''n'' then Some (InLiteral ''ull'', stack)
      else None)"

fun jsonStep :: "mode \<times> container list \<Rightarrow> char \<Rightarrow> (mode \<times> container list) option" where
  "jsonStep (ExpectValue, stack) c =
     (if isWs c then Some (ExpectValue, stack) else startValue stack c)"
| "jsonStep (ExpectValueOrEnd, stack) c =
     (if isWs c then Some (ExpectValueOrEnd, stack)
      else if c = CHR '']'' then Some (AfterValue, tl stack)
      else startValue stack c)"
| "jsonStep (ExpectKeyOrEnd, stack) c =
     (if isWs c then Some (ExpectKeyOrEnd, stack)
      else if c = CHR ''}'' then Some (AfterValue, tl stack)
      else if c = CHR 0x22 then Some (InString True, stack)
      else None)"
| "jsonStep (ExpectKey, stack) c =
     (if isWs c then Some (ExpectKey, stack)
      else if c = CHR 0x22 then Some (InString True, stack)
      else None)"
| "jsonStep (ExpectColon, stack) c =
     (if isWs c then Some (ExpectColon, stack)
      else if c = CHR '':'' then Some (ExpectValue, stack)
      else None)"
| "jsonStep (AfterValue, stack) c = afterValue stack c"
| "jsonStep (InString isKey, stack) c =
     (if c = CHR 0x22 then Some (if isKey then ExpectColon else AfterValue, stack)
      else if c = CHR 0x5C then Some (InEscape isKey, stack)
      else if isControl c then None
      else Some (InString isKey, stack))"
| "jsonStep (InEscape isKey, stack) c =
     (if c = CHR ''u'' then Some (InUnicode isKey 4, stack)
      else if c = CHR 0x22 \<or> c = CHR 0x5C \<or> c \<in> set ''/bfnrt'' then Some (InString isKey, stack)
      else None)"
| "jsonStep (InUnicode isKey n, stack) c =
     (if isHex c then Some (if n \<le> 1 then InString isKey else InUnicode isKey (n - 1), stack)
      else None)"
| "jsonStep (InLiteral [], stack) c = None"
| "jsonStep (InLiteral (x # xs), stack) c =
     (if c = x then Some (if xs = [] then AfterValue else InLiteral xs, stack) else None)"
| "jsonStep (NumMinus, stack) c =
     (if c = CHR ''0'' then Some (NumZero, stack)
      else if isDigit c then Some (NumInt, stack)
      else None)"
| "jsonStep (NumZero, stack) c =
     (if c = CHR ''.'' then Some (NumDot, stack)
      else if c = CHR ''e'' \<or> c = CHR ''E'' then Some (NumExp, stack)
      else afterValue stack c)"
| "jsonStep (NumInt, stack) c =
     (if isDigit c then Some (NumInt, stack)
      else if c = CHR ''.'' then Some (NumDot, stack)
      else if c = CHR ''e'' \<or> c = CHR ''E'' then Some (NumExp, stack)
      else afterValue stack c)"
| "jsonStep (NumDot, stack) c = (if isDigit c then Some (NumFrac, stack) else None)"
| "jsonStep (NumFrac, stack) c =
     (if isDigit c then Some (NumFrac, stack)
      else if c = CHR ''e'' \<or> c = CHR ''E'' then Some (NumExp, stack)
      else afterValue stack c)"
| "jsonStep (NumExp, stack) c =
     (if c = CHR ''+'' \<or> c = CHR ''-'' then Some (NumExpSign, stack)
      else if isDigit c then Some (NumExpDigits, stack)
      else None)"
| "jsonStep (NumExpSign, stack) c = (if isDigit c then Some (NumExpDigits, stack) else None)"
| "jsonStep (NumExpDigits, stack) c =
     (if isDigit c then Some (NumExpDigits, stack) else afterValue stack c)"

fun jsonRun :: "mode \<times> container list \<Rightarrow> string \<Rightarrow> (mode \<times> container list) option" where
  "jsonRun st [] = Some st"
| "jsonRun st (c # cs) = (case jsonStep st c of None \<Rightarrow> None | Some st' \<Rightarrow> jsonRun st' cs)"

definition jsonAccepting :: "mode \<times> container list \<Rightarrow> bool" where
  "jsonAccepting st =
     (snd st = [] \<and> fst st \<in> {AfterValue, NumZero, NumInt, NumFrac, NumExpDigits})"

definition jsonWellFormed :: "string \<Rightarrow> bool" where
  "jsonWellFormed text =
     (case jsonRun (ExpectValue, []) text of None \<Rightarrow> False | Some st \<Rightarrow> jsonAccepting st)"

section \<open>A canonical JSON printer\<close>

text \<open>
  A printer in the manner of \<open>encoding/json\<close>: no white space, the members of an
  object in the byte order of their keys. The concrete runs below pass it for
  \<open>marshal\<close>.
\<close>

definition escapeChar :: "char \<Rightarrow> string" where
  "escapeChar c =
     (if c = CHR 0x22 then [CHR 0x5C, CHR 0x22]
      else if c = CHR 0x5C then [CHR 0x5C, CHR 0x5C]
      else if c = CHR 0x0A then [CHR 0x5C, CHR ''n'']
      else if c = CHR 0x0D then [CHR 0x5C, CHR ''r'']
      else if c = CHR 0x09 then [CHR 0x5C, CHR ''t'']
      else [c])"

definition quoteText :: "string \<Rightarrow> string" where
  "quoteText s = [CHR 0x22] @ concat (map escapeChar s) @ [CHR 0x22]"

fun insertMember :: "string \<times> string \<Rightarrow> (string \<times> string) list \<Rightarrow> (string \<times> string) list" where
  "insertMember x [] = [x]"
| "insertMember x (y # ys) =
     (if strLess (fst x) (fst y) then x # y # ys else y # insertMember x ys)"

definition sortMembers :: "(string \<times> string) list \<Rightarrow> (string \<times> string) list" where
  "sortMembers ms = foldr insertMember ms []"

fun joinWith :: "string \<Rightarrow> string list \<Rightarrow> string" where
  "joinWith sep [] = []"
| "joinWith sep [x] = x"
| "joinWith sep (x # y # ys) = x @ sep @ joinWith sep (y # ys)"

fun canonicalJSON :: "jv \<Rightarrow> string"
and canonicalElems :: "jv list \<Rightarrow> string list"
and canonicalMembers :: "(string \<times> jv) list \<Rightarrow> (string \<times> string) list" where
  "canonicalJSON JNull = ''null''"
| "canonicalJSON (JBool b) = boolText b"
| "canonicalJSON (JInt i) = showInt i"
| "canonicalJSON (JFloat txt) = txt"
| "canonicalJSON (JString s) = quoteText s"
| "canonicalJSON (JArray xs) = ''['' @ joinWith '','' (canonicalElems xs) @ '']''"
| "canonicalJSON (JObject m) =
     ''{'' @ joinWith '','' (map (\<lambda>(k, t). quoteText k @ '':'' @ t)
                              (sortMembers (canonicalMembers m))) @ ''}''"
| "canonicalElems [] = []"
| "canonicalElems (x # xs) = canonicalJSON x # canonicalElems xs"
| "canonicalMembers [] = []"
| "canonicalMembers ((k, v) # rest) = (k, canonicalJSON v) # canonicalMembers rest"

section \<open>Reference points\<close>

text \<open>
  The gate as the specification words it, over exact integers: an entry exists, is in
  error, has no alert sent, and the interval is 0 or that many minutes have passed.
\<close>

definition alertGateSpec :: "int \<Rightarrow> time \<Rightarrow> 'a unitState_scheme option \<Rightarrow> bool" where
  "alertGateSpec interval now entry =
     (case entry of
        None \<Rightarrow> False
      | Some st \<Rightarrow> hasError st \<and> \<not> alertSent st
                   \<and> (interval = 0 \<or> interval * Minute \<le> now - firstError st))"

definition armState :: "'a unitState_scheme \<Rightarrow> bool \<times> time \<times> bool" where
  "armState s = (hasError s, firstError s, alertSent s)"

text \<open>The defaults that \<open>main\<close> registers, and the empty stores of a fresh process.\<close>

definition defaultConfig :: Config where
  "defaultConfig = \<lparr>WebhookUrl = [], Interval = 3,
     AlertThresholds = \<lparr>VolumeUsagePercent = 85, VolumeCapacityCritical = 1073741824\<rparr>,
     GitOps = \<lparr>AlertOnMismatch = True, Repositories = []\<rparr>\<rparr>"

definition initialWorld :: "Config \<Rightarrow> bool \<Rightarrow> world" where
  "initialWorld cfg leader =
     \<lparr>config = cfg, isLeader = leader, requestBuilds = True,
      podStates = Map.empty, nodeStates = Map.empty, nodeResourceStates = Map.empty,
      longhornVolumeStates = Map.empty, longhornReplicaStates = Map.empty,
      longhornEngineStates = Map.empty, longhornNodeStates = Map.empty,
      longhornBackupStates = Map.empty, gitOpsStates = Map.empty,
      webhookCalls = [], posts = []\<rparr>"

text \<open>
  The comparison of two resources as the specification words it: the \<open>spec\<close> subtrees
  under \<open>marshal\<close>, both absent being equal and one absent unequal, and the labels and
  annotations under \<open>metadata\<close> once the system-managed keys are removed.
\<close>

definition specEqual :: "(jv \<Rightarrow> string) \<Rightarrow> object \<Rightarrow> object \<Rightarrow> bool" where
  "specEqual marshal d a =
     (case (NestedMap d [''spec''], NestedMap a [''spec'']) of
        (Found x, Found y) \<Rightarrow> marshal (JObject x) = marshal (JObject y)
      | (Found x, _) \<Rightarrow> False
      | (_, Found y) \<Rightarrow> False
      | (_, _) \<Rightarrow> True)"

definition labelsOf :: "object \<Rightarrow> (string \<times> string) list" where
  "labelsOf obj = mapOrNil (NestedStringMap obj [''metadata'', ''labels''])"

definition annotationsOf :: "object \<Rightarrow> (string \<times> string) list" where
  "annotationsOf obj = mapOrNil (NestedStringMap obj [''metadata'', ''annotations''])"

definition labelsEqual :: "(jv \<Rightarrow> string) \<Rightarrow> object \<Rightarrow> object \<Rightarrow> bool" where
  "labelsEqual marshal d a =
     (marshal (stringMapValue (cleanLabels (labelsOf d)))
        = marshal (stringMapValue (cleanLabels (labelsOf a))))"

definition annotationsEqual :: "(jv \<Rightarrow> string) \<Rightarrow> object \<Rightarrow> object \<Rightarrow> bool" where
  "annotationsEqual marshal d a =
     (marshal (stringMapValue (cleanAnnotations (annotationsOf d)))
        = marshal (stringMapValue (cleanAnnotations (annotationsOf a))))"

definition resourcesEqualSpec :: "(jv \<Rightarrow> string) \<Rightarrow> object \<Rightarrow> object \<Rightarrow> bool" where
  "resourcesEqualSpec marshal d a =
     (specEqual marshal d a \<and> labelsEqual marshal d a \<and> annotationsEqual marshal d a)"

text \<open>What \<open>resourcesEqual\<close> reads of an object.\<close>

definition hasMetadata :: "object \<Rightarrow> bool" where
  "hasMetadata obj = isFound (NestedMap obj [''metadata''])"

definition comparedView ::
  "object \<Rightarrow> object nested \<times> bool \<times> (string \<times> string) list \<times> (string \<times> string) list" where
  "comparedView obj = (NestedMap obj [''spec''], hasMetadata obj, labelsOf obj, annotationsOf obj)"

text \<open>A drift alert is one whose title \<open>sendGitOpsMismatchAlert\<close> built.\<close>

definition isMismatchAlert :: "Alert \<Rightarrow> bool" where
  "isMismatchAlert a = (take 14 (Title a) = ''GitOps Alert: '')"


section \<open>Concrete runs\<close>

definition webPod :: Pod where
  "webPod = \<lparr>podNamespace = ''default'', podName = ''web''\<rparr>"

definition worker1 :: Node where
  "worker1 = \<lparr>nodeObjName = ''worker-1''\<rparr>"

text \<open>A node whose disk pressure is first seen at \<open>10^12\<close>, under the default interval.\<close>

definition dwellWorld :: world where
  "dwellWorld = updateNodeState (initialWorld defaultConfig True) 1000000000000 worker1 True
                  ''Node under DiskPressure''"

text \<open>A failing pod first seen at 1000, under an interval of 153722868 minutes.\<close>

definition overflowWorld :: world where
  "overflowWorld =
     updatePodState (initialWorld (defaultConfig\<lparr>Interval := 153722868\<rparr>) True) 1000 webPod True
       ''Container app has failed''"

definition driftKey :: string where
  "driftKey = ''infra/default/Deployment/web''"

definition missingMessage :: string where
  "missingMessage = ''Resource missing: Deployment/web is missing from cluster''"

definition infraRepo :: GitOpsRepository where
  "infraRepo = \<lparr>repoName = ''infra'', repoURL = ''https://git.example/infra.git'',
                 repoAlertOnMismatch = True\<rparr>"

definition infraConfig :: Config where
  "infraConfig = defaultConfig\<lparr>Interval := 0,
                   GitOps := \<lparr>AlertOnMismatch = True, Repositories = [infraRepo]\<rparr>\<rparr>"

text \<open>A missing Deployment recorded at 1000: with its repository configured, and without.\<close>

definition missingWorld :: world where
  "missingWorld =
     updateGitOpsState (initialWorld infraConfig True) 1000 driftKey True missingMessage
       ''infra'' ''Deployment'' ''web'' ''default'' ''missing'' [] []"

definition orphanWorld :: world where
  "orphanWorld =
     updateGitOpsState (initialWorld (defaultConfig\<lparr>Interval := 0\<rparr>) True) 1000 driftKey True
       missingMessage ''infra'' ''Deployment'' ''web'' ''default'' ''missing'' [] []"

text \<open>The same entry once its alert is marked sent.\<close>

definition driftWorld :: world where
  "driftWorld = markGitOpsAlertSent missingWorld driftKey"

definition stampT :: string where
  "stampT = ''2024-05-01T10:00:00Z''"

definition plainAlert :: Alert where
  "plainAlert = \<lparr>Title = ''Pod Failure on default'',
     Description = ''Pod web in namespace default has failed'',
     Fields = [mkField ''Container'' ''app'' True, mkField ''State'' ''Terminated'' True,
               mkField ''Exit Code'' ''137'' True, mkField ''Reason'' ''OOMKilled'' True],
     Logs = ''starting server''\<rparr>"




definition volKey :: string where
  "volKey = ''longhorn-system/vol-a''"

definition degradedWorld :: "floatOps \<Rightarrow> world" where
  "degradedWorld fl =
     processLonghornVolumeStatus fl (initialWorld (defaultConfig\<lparr>Interval := 0\<rparr>) True)
       1000 1000 stampT ''vol-a'' ''longhorn-system'' ''attached'' ''degraded'' 0 0"

definition deployment :: "int \<Rightarrow> (string \<times> string) list \<Rightarrow> object" where
  "deployment replicas labels =
     [(''apiVersion'', JString ''apps/v1''), (''kind'', JString ''Deployment''),
      (''metadata'', JObject [(''name'', JString ''web''), (''namespace'', JString ''default''),
                             (''labels'', stringMapValue labels)]),
      (''spec'', JObject [(''replicas'', JInt replicas)])]"

definition bareDeployment :: object where
  "bareDeployment =
     [(''apiVersion'', JString ''apps/v1''), (''kind'', JString ''Deployment''),
      (''spec'', JObject [(''replicas'', JInt 3)])]"

definition deploymentsGVR :: GVR where
  "deploymentsGVR = \<lparr>gvrGroup = ''apps'', gvrVersion = ''v1'', gvrResource = ''deployments''\<rparr>"

text \<open>A cluster that holds the Deployment with 5 replicas and fails every dry-run.\<close>

definition failingCluster :: cluster where
  "failingCluster =
     \<lparr>gvrCache = [''Deployment'' \<mapsto> deploymentsGVR],
      clusterGet = (\<lambda>gvr ns nm. GetFound (deployment 5 [])),
      applyDryRun = (\<lambda>gvr ns nm obj. None)\<rparr>"



section \<open>Properties of the state store and the gate\<close>

lemma intervalDuration_exact:
  "\<bar>i\<bar> \<le> 153722867 \<Longrightarrow> intervalDuration i = i * Minute"
  unfolding intervalDuration_def wrap64_def Minute_def
  by (simp add: abs_le_iff)

lemma timeSince_ge_iff:
  "\<bar>i\<bar> \<le> 153722867 \<Longrightarrow> (i * Minute \<le> timeSince now t) = (i * Minute \<le> now - t)"
  unfolding timeSince_def timeSub_def maxDuration_def minDuration_def Minute_def
  by (auto simp: abs_le_iff)

lemma gate_tail:
  "\<bar>i\<bar> \<le> 153722867 \<Longrightarrow>
     (intervalDuration i \<le> timeSince now t) = (i * Minute \<le> now - t)"
  by (simp add: intervalDuration_exact timeSince_ge_iff)

lemma repositoryMutes_iff:
  "repositoryMutes repos nm = (\<exists>r \<in> set repos. repoName r = nm \<and> \<not> repoAlertOnMismatch r)"
  by (induction repos) auto

lemma truncate_fields [simp]:
  "hasError (unitState.truncate s) = hasError s"
  "alertSent (unitState.truncate s) = alertSent s"
  "firstError (unitState.truncate s) = firstError s"
  by (simp_all add: unitState.truncate_def)

lemma gate_pod_node:
  assumes "\<bar>Interval (config w)\<bar> \<le> 153722867"
  shows "shouldSendAlert w now ''pod'' key
           = alertGateSpec (Interval (config w)) now (podStates w key)"
    and "shouldSendAlert w now ''node'' key
           = alertGateSpec (Interval (config w)) now (nodeStates w key)"
    and "shouldSendAlert w now ''node_resource'' key
           = alertGateSpec (Interval (config w)) now (nodeResourceStates w key)"
  using assms
  by (auto simp: shouldSendAlert_def readState_def alertGateSpec_def gate_tail zeroUnitState_def
           split: option.splits)

lemma gate_longhorn:
  assumes "\<bar>Interval (config w)\<bar> \<le> 153722867"
  shows "shouldSendLonghornAlert w now ''volume'' key
           = alertGateSpec (Interval (config w)) now (longhornVolumeStates w key)"
    and "shouldSendLonghornAlert w now ''replica'' key
           = alertGateSpec (Interval (config w)) now (longhornReplicaStates w key)"
    and "shouldSendLonghornAlert w now ''engine'' key
           = alertGateSpec (Interval (config w)) now (longhornEngineStates w key)"
    and "shouldSendLonghornAlert w now ''node'' key
           = alertGateSpec (Interval (config w)) now (longhornNodeStates w key)"
    and "shouldSendLonghornAlert w now ''backup'' key
           = alertGateSpec (Interval (config w)) now (longhornBackupStates w key)"
  using assms
  by (auto simp: shouldSendLonghornAlert_def alertGateSpec_def gate_tail split: option.splits)

lemma gate_gitops:
  assumes "\<bar>Interval (config w)\<bar> \<le> 153722867"
  shows "shouldSendGitOpsAlert w now key =
           (alertGateSpec (Interval (config w)) now (gitOpsStates w key)
            \<and> AlertOnMismatch (GitOps (config w))
            \<and> (case gitOpsStates w key of
                  None \<Rightarrow> False
                | Some st \<Rightarrow> \<forall>r \<in> set (Repositories (GitOps (config w))).
                               repoName r = repositoryName st \<longrightarrow> repoAlertOnMismatch r))"
  using assms
  by (auto simp: shouldSendGitOpsAlert_def alertGateSpec_def gate_tail repositoryMutes_iff
           split: option.splits)

text \<open>
  C1, as amended. While the interval in nanoseconds fits a 64-bit duration (at most
  153722867 minutes either way), the gate of every family returns true exactly when
  an entry exists for the key, is in error, has no alert sent, and the interval is 0
  or that many minutes have passed since \<open>firstError\<close>. The GitOps gate asks in
  addition that the global \<open>alert_on_mismatch\<close> flag is true and that no configured
  repository with the entry's repository name has its own flag false.
\<close>

theorem alert_gate_iff:
  assumes "\<bar>Interval (config w)\<bar> \<le> 153722867"
  shows "shouldSendAlert w now ''pod'' key
           = alertGateSpec (Interval (config w)) now (podStates w key)
       \<and> shouldSendAlert w now ''node'' key
           = alertGateSpec (Interval (config w)) now (nodeStates w key)
       \<and> shouldSendAlert w now ''node_resource'' key
           = alertGateSpec (Interval (config w)) now (nodeResourceStates w key)
       \<and> shouldSendLonghornAlert w now ''volume'' key
           = alertGateSpec (Interval (config w)) now (longhornVolumeStates w key)
       \<and> shouldSendLonghornAlert w now ''replica'' key
           = alertGateSpec (Interval (config w)) now (longhornReplicaStates w key)
       \<and> shouldSendLonghornAlert w now ''engine'' key
           = alertGateSpec (Interval (config w)) now (longhornEngineStates w key)
       \<and> shouldSendLonghornAlert w now ''node'' key
           = alertGateSpec (Interval (config w)) now (longhornNodeStates w key)
       \<and> shouldSendLonghornAlert w now ''backup'' key
           = alertGateSpec (Interval (config w)) now (longhornBackupStates w key)
       \<and> shouldSendGitOpsAlert w now key
           = (alertGateSpec (Interval (config w)) now (gitOpsStates w key)
              \<and> AlertOnMismatch (GitOps (config w))
              \<and> (case gitOpsStates w key of
                    None \<Rightarrow> False
                  | Some st \<Rightarrow> \<forall>r \<in> set (Repositories (GitOps (config w))).
                                 repoName r = repositoryName st \<longrightarrow> repoAlertOnMismatch r))"
  using gate_pod_node[OF assms] gate_longhorn[OF assms] gate_gitops[OF assms]
  by simp

text \<open>
  The gate at work. Under the default interval of 3 minutes the node of \<open>dwellWorld\<close>
  is held back two minutes after the onset and let through after three; the missing
  Deployment of \<open>missingWorld\<close>, whose repository is configured with alerts on, is let
  through at once under interval 0.
\<close>

theorem alert_gate_iff_witness:
  "\<bar>Interval (config dwellWorld)\<bar> \<le> 153722867
   \<and> \<not> shouldSendAlert dwellWorld (1000000000000 + 2 * Minute) ''node'' ''worker-1''
   \<and> shouldSendAlert dwellWorld (1000000000000 + 3 * Minute) ''node'' ''worker-1''
   \<and> \<bar>Interval (config missingWorld)\<bar> \<le> 153722867
   \<and> shouldSendGitOpsAlert missingWorld 1000 driftKey"
proof -
  have d: "\<bar>Interval (config dwellWorld)\<bar> \<le> 153722867"
    by (simp add: dwellWorld_def updateNodeState_def initialWorld_def defaultConfig_def)
  have m: "\<bar>Interval (config missingWorld)\<bar> \<le> 153722867"
    by (simp add: missingWorld_def updateGitOpsState_def initialWorld_def infraConfig_def
                  defaultConfig_def)
  show ?thesis
    using d m
          alert_gate_iff[OF d, of "1000000000000 + 2 * Minute" "''worker-1''"]
          alert_gate_iff[OF d, of "1000000000000 + 3 * Minute" "''worker-1''"]
          alert_gate_iff[OF m, of 1000 driftKey]
    by (simp add: dwellWorld_def missingWorld_def updateNodeState_def updateGitOpsState_def
                  initialWorld_def defaultConfig_def infraConfig_def infraRepo_def worker1_def
                  alertGateSpec_def Minute_def)
qed

text \<open>
  C1 as stated fails. With an interval of 153722868 minutes the product with
  \<open>time.Minute\<close> wraps to a negative duration, and the gate lets the pod through in
  the very nanosecond of the onset, though the interval is not 0 and no minute has
  passed. And the GitOps gate lets an entry through whose repository is not among the
  configured ones, so that no per-repository flag is true for it.
\<close>

theorem alert_gate_counterexample:
  "shouldSendAlert overflowWorld 1000 ''pod'' ''default/web''
   \<and> \<not> alertGateSpec (Interval (config overflowWorld)) 1000
          (podStates overflowWorld ''default/web'')
   \<and> shouldSendGitOpsAlert orphanWorld 1000 driftKey
   \<and> Repositories (GitOps (config orphanWorld)) = []"
  by (simp add: overflowWorld_def orphanWorld_def updatePodState_def updateGitOpsState_def
                initialWorld_def defaultConfig_def webPod_def podKeyOf_def
                shouldSendAlert_def shouldSendGitOpsAlert_def readState_def alertGateSpec_def
                intervalDuration_def wrap64_def Minute_def timeSince_def timeSub_def
                maxDuration_def minDuration_def)

lemma healthy_upsert_clears:
  "armFields now False (Some prev) = (zeroTime, False)"
  by (simp add: armFields_def)

lemma healthy_upsert_clears_pod_node:
  "podStates w (podKeyOf pod) = Some prev \<Longrightarrow>
     map_option armState (podStates (updatePodState w now pod False msg) (podKeyOf pod))
       = Some (False, zeroTime, False)"
  "nodeStates w (nodeObjName nd) = Some prev \<Longrightarrow>
     map_option armState (nodeStates (updateNodeState w now nd False msg) (nodeObjName nd))
       = Some (False, zeroTime, False)"
  by (simp_all add: updatePodState_def updateNodeState_def armState_def Let_def)

lemma healthy_upsert_clears_others:
  "nodeResourceStates w key = Some p1 \<Longrightarrow>
     map_option armState
       (nodeResourceStates (updateNodeResourceState w now key False msg cap reqs pct) key)
       = Some (False, zeroTime, False)"
  "longhornVolumeStates w key = Some p2 \<Longrightarrow>
     map_option armState
       (longhornVolumeStates (updateLonghornVolumeState w now key False msg st rb cap sz ns) key)
       = Some (False, zeroTime, False)"
  "longhornReplicaStates w key = Some p3 \<Longrightarrow>
     map_option armState
       (longhornReplicaStates (updateLonghornReplicaState w now key False msg st ns) key)
       = Some (False, zeroTime, False)"
  "longhornEngineStates w key = Some p4 \<Longrightarrow>
     map_option armState
       (longhornEngineStates (updateLonghornEngineState w now key False msg st ns) key)
       = Some (False, zeroTime, False)"
  "longhornNodeStates w key = Some p5 \<Longrightarrow>
     map_option armState
       (longhornNodeStates (updateLonghornNodeState w now key False msg nn) key)
       = Some (False, zeroTime, False)"
  "longhornBackupStates w key = Some p6 \<Longrightarrow>
     map_option armState
       (longhornBackupStates (updateLonghornBackupState w now key False msg st ns) key)
       = Some (False, zeroTime, False)"
  by (simp_all add: updateNodeResourceState_def updateLonghornVolumeState_def
                    updateLonghornReplicaState_def updateLonghornEngineState_def
                    updateLonghornNodeState_def updateLonghornBackupState_def
                    armFields_def armState_def)

lemma healthy_upsert_gitops_after_healthy:
  "gitOpsStates w key = Some prev \<Longrightarrow> \<not> hasError prev \<Longrightarrow>
     map_option armState
       (gitOpsStates (updateGitOpsState w now key False msg rp kd nm gns mm eh ah) key)
       = Some (False, zeroTime, False)"
  by (simp add: updateGitOpsState_def armState_def)

text \<open>
  C2 at the GitOps store. The entry of \<open>driftWorld\<close> is in error since 1000 with its
  alert sent. The healthy Upsert of \<open>processGitOpsMatch\<close> at 2000, whose message is
  empty, leaves \<open>firstError = 2000\<close> and not the zero time; a healthy Upsert that
  repeats the stored message leaves \<open>firstError = 1000\<close> and \<open>alertSent = true\<close>.
\<close>

theorem gitops_healthy_upsert_divergence:
  "map_option armState (gitOpsStates driftWorld driftKey) = Some (True, 1000, True)
   \<and> map_option armState
        (gitOpsStates
           (updateGitOpsState driftWorld 2000 driftKey False [] ''infra'' ''Deployment''
              ''web'' ''default'' [] [] []) driftKey)
       = Some (False, 2000, False)
   \<and> map_option armState
        (gitOpsStates
           (updateGitOpsState driftWorld 2000 driftKey False missingMessage ''infra''
              ''Deployment'' ''web'' ''default'' [] [] []) driftKey)
       = Some (False, 1000, True)
   \<and> (2000 :: time) \<noteq> zeroTime"
  by (simp add: driftWorld_def missingWorld_def markGitOpsAlertSent_def updateGitOpsState_def
                initialWorld_def armState_def missingMessage_def zeroTime_def)

text \<open>
  C3, as amended. With no previous entry for the key, the first Upsert of every family
  inserts an entry with the given \<open>hasError\<close>, with \<open>firstError\<close> equal to the current
  time whether or not \<open>hasError\<close> is true, and with \<open>alertSent\<close> false.
\<close>

theorem first_upsert_inserts:
  "(podStates w (podKeyOf pod) = None \<longrightarrow>
      map_option armState (podStates (updatePodState w now pod h msg) (podKeyOf pod))
        = Some (h, now, False))
 \<and> (nodeStates w (nodeObjName nd) = None \<longrightarrow>
      map_option armState (nodeStates (updateNodeState w now nd h msg) (nodeObjName nd))
        = Some (h, now, False))
 \<and> (nodeResourceStates w key = None \<longrightarrow>
      map_option armState
        (nodeResourceStates (updateNodeResourceState w now key h msg cap reqs pct) key)
        = Some (h, now, False))
 \<and> (longhornVolumeStates w key = None \<longrightarrow>
      map_option armState
        (longhornVolumeStates (updateLonghornVolumeState w now key h msg st rb cap sz ns) key)
        = Some (h, now, False))
 \<and> (longhornReplicaStates w key = None \<longrightarrow>
      map_option armState
        (longhornReplicaStates (updateLonghornReplicaState w now key h msg st ns) key)
        = Some (h, now, False))
 \<and> (longhornEngineStates w key = None \<longrightarrow>
      map_option armState
        (longhornEngineStates (updateLonghornEngineState w now key h msg st ns) key)
        = Some (h, now, False))
 \<and> (longhornNodeStates w key = None \<longrightarrow>
      map_option armState
        (longhornNodeStates (updateLonghornNodeState w now key h msg nn) key)
        = Some (h, now, False))
 \<and> (longhornBackupStates w key = None \<longrightarrow>
      map_option armState
        (longhornBackupStates (updateLonghornBackupState w now key h msg st ns) key)
        = Some (h, now, False))
 \<and> (gitOpsStates w key = None \<longrightarrow>
      map_option armState
        (gitOpsStates (updateGitOpsState w now key h msg rp kd nm gns mm eh ah) key)
        = Some (h, now, False))"
  by (simp add: updatePodState_def updateNodeState_def updateNodeResourceState_def
                updateLonghornVolumeState_def updateLonghornReplicaState_def
                updateLonghornEngineState_def updateLonghornNodeState_def
                updateLonghornBackupState_def updateGitOpsState_def armFields_def armState_def
                Let_def)

theorem first_upsert_inserts_witness:
  "podStates (initialWorld defaultConfig True) (podKeyOf webPod) = None
   \<and> map_option armState
        (podStates (updatePodState (initialWorld defaultConfig True) 1000 webPod True
                      ''Container app has failed'') (podKeyOf webPod))
       = Some (True, 1000, False)
   \<and> gitOpsStates (initialWorld defaultConfig True) driftKey = None
   \<and> map_option armState
        (gitOpsStates (updateGitOpsState (initialWorld defaultConfig True) 1000 driftKey False
                         [] ''infra'' ''Deployment'' ''web'' ''default'' [] [] []) driftKey)
       = Some (False, 1000, False)"
  using first_upsert_inserts[of "initialWorld defaultConfig True" webPod 1000 True
          "''Container app has failed''"]
        first_upsert_inserts[of "initialWorld defaultConfig True" _ 1000 False "[]" _ driftKey
          _ _ _ _ _ _ _ _ "''infra''" "''Deployment''" "''web''" "''default''" "[]" "[]" "[]"]
  by (simp add: initialWorld_def)

text \<open>
  C3 as stated fails where \<open>hasError\<close> is false: the first Upsert of a healthy pod at
  time 1000 stores \<open>firstError = 1000\<close>, which is not the zero time.
\<close>

theorem first_upsert_healthy_counterexample:
  "podStates (initialWorld defaultConfig True) (podKeyOf webPod) = None
   \<and> map_option armState
        (podStates (updatePodState (initialWorld defaultConfig True) 1000 webPod False [])
           (podKeyOf webPod))
       = Some (False, 1000, False)
   \<and> (1000 :: time) \<noteq> zeroTime"
  by (simp add: updatePodState_def initialWorld_def armState_def zeroTime_def)

text \<open>
  C5. For a GitOps key whose previous entry is in error, an Upsert that keeps
  \<open>hasError\<close> true resets \<open>firstError\<close> to the current time and \<open>alertSent\<close> to false
  when the message text differs from the stored one, and keeps the previous
  \<open>firstError\<close> and \<open>alertSent\<close> when the text is the same.
\<close>

theorem gitops_message_change_rearms:
  assumes "gitOpsStates w key = Some prev" and "hasError prev"
  shows "map_option armState
           (gitOpsStates (updateGitOpsState w now key True msg rp kd nm gns mm eh ah) key)
         = Some (True, if msg \<noteq> lastMessage prev then (now, False)
                       else (firstError prev, alertSent prev))"
  using assms by (simp add: updateGitOpsState_def armState_def)

theorem gitops_message_change_rearms_witness:
  "map_option armState (gitOpsStates driftWorld driftKey) = Some (True, 1000, True)
   \<and> map_option armState
        (gitOpsStates
           (updateGitOpsState driftWorld 2000 driftKey True
              ''Resource different: Deployment/web differs between Git and cluster''
              ''infra'' ''Deployment'' ''web'' ''default'' ''different'' [] []) driftKey)
       = Some (True, 2000, False)
   \<and> map_option armState
        (gitOpsStates
           (updateGitOpsState driftWorld 2000 driftKey True missingMessage
              ''infra'' ''Deployment'' ''web'' ''default'' ''missing'' [] []) driftKey)
       = Some (True, 1000, True)"
proof -
  obtain prev where p: "gitOpsStates driftWorld driftKey = Some prev"
    and f: "hasError prev" "lastMessage prev = missingMessage" "firstError prev = 1000"
           "alertSent prev"
    by (simp add: driftWorld_def missingWorld_def markGitOpsAlertSent_def
                  updateGitOpsState_def initialWorld_def)
  show ?thesis
    using p f
          gitops_message_change_rearms[OF p f(1), of 2000
            "''Resource different: Deployment/web differs between Git and cluster''"
            "''infra''" "''Deployment''" "''web''" "''default''" "''different''" "[]" "[]"]
          gitops_message_change_rearms[OF p f(1), of 2000 missingMessage
            "''infra''" "''Deployment''" "''web''" "''default''" "''missing''" "[]" "[]"]
    by (simp add: armState_def missingMessage_def)
qed

section \<open>Properties of the sink and of the Longhorn volume path\<close>



lemma leader_posts:
  "isLeader w \<Longrightarrow> requestBuilds w \<Longrightarrow>
   posts (sendWebhookMessage w stamp alert)
     = posts w @ [\<lparr>postUrl = WebhookUrl (config w), postContentType = ''application/json'',
                   postBody = jsonPayload stamp alert\<rparr>]"
  by (simp add: sendWebhookMessage_def Let_def)

lemma plain_payload_well_formed: "jsonWellFormed (jsonPayload stampT plainAlert)"
  by code_simp





lemma healthy_volume_update_silent:
  "volumeVerdict fl (config w) state robust cap sz = (False, msg, ty) \<Longrightarrow>
   webhookCalls (processLonghornVolumeStatus fl w nowU nowG stamp nm ns state robust cap sz)
     = webhookCalls w"
  by (simp add: processLonghornVolumeStatus_def Let_def updateLonghornVolumeState_def
                armFields_def checkLonghornVolumeRecovery_def
           split: option.splits prod.splits)

text \<open>
  C4 on the code. Volume \<open>vol-a\<close> turns degraded at 1000 under interval 0: one alert
  is handed to the sink and the entry is in error with \<open>alertSent\<close> true. The healthy
  update at 2000 hands nothing to the sink and posts nothing: the state is updated
  first, so \<open>checkLonghornVolumeRecovery\<close> reads the entry whose flags the update has
  just cleared.
\<close>

theorem longhorn_volume_recovery_divergence:
  "map_option armState (longhornVolumeStates (degradedWorld fl) volKey)
     = Some (True, 1000, True)
   \<and> map Title (webhookCalls (degradedWorld fl))
       = [''Longhorn Volume Alert on longhorn-system'']
   \<and> webhookCalls (processLonghornVolumeStatus fl (degradedWorld fl) 2000 2000
                      stamp ''vol-a'' ''longhorn-system'' ''attached'' ''healthy'' 0 0)
       = webhookCalls (degradedWorld fl)
   \<and> posts (processLonghornVolumeStatus fl (degradedWorld fl) 2000 2000
                stamp ''vol-a'' ''longhorn-system'' ''attached'' ''healthy'' 0 0)
       = posts (degradedWorld fl)"
  by (simp add: degradedWorld_def processLonghornVolumeStatus_def volumeVerdict_def
                updateLonghornVolumeState_def armFields_def shouldSendLonghornAlert_def
                initialWorld_def defaultConfig_def sendLonghornVolumeAlert_def
                sendWebhookMessage_def markLonghornAlertSent_def
                checkLonghornVolumeRecovery_def armState_def volKey_def Let_def)

section \<open>Properties of the resource comparison\<close>

lemma nested_under_metadata:
  "isFound (NestedMap obj [''metadata'']) \<Longrightarrow>
   NestedStringMap (mapOrNil (NestedMap obj [''metadata''])) [k] = NestedStringMap obj [''metadata'', k]"
  by (auto simp: NestedStringMap_def NestedMap_def isFound_def mapOrNil_def
           split: option.splits jv.splits nested.splits)

lemma resourcesEqual_unfold:
  "resourcesEqual marshal (Some d) (Some a) =
     (specEqual marshal d a
      \<and> (hasMetadata d \<and> hasMetadata a \<longrightarrow> labelsEqual marshal d a \<and> annotationsEqual marshal d a))"
proof -
  have spec: "(\<not> (isFound (NestedMap d [''spec'']) \<noteq> isFound (NestedMap a [''spec'']))
       \<and> \<not> (isFound (NestedMap d [''spec''])
            \<and> marshal (JObject (mapOrNil (NestedMap d [''spec'']))) \<noteq> marshal (JObject (mapOrNil (NestedMap a [''spec''])))))
      = specEqual marshal d a"
    by (cases "NestedMap d [''spec'']"; cases "NestedMap a [''spec'']")
       (auto simp: specEqual_def isFound_def mapOrNil_def)
  show ?thesis
    unfolding spec[symmetric]
    by (auto simp: resourcesEqual_def Let_def hasMetadata_def labelsEqual_def annotationsEqual_def
                   labelsOf_def annotationsOf_def nested_under_metadata)
qed

lemma resourcesEqual_nil:
  "resourcesEqual marshal None None"
  "\<not> resourcesEqual marshal None (Some a)"
  "\<not> resourcesEqual marshal (Some d) None"
  by (simp_all add: resourcesEqual_def)

text \<open>
  C6, as amended. For two objects (not nil), \<open>resourcesEqual\<close> returns true exactly
  when the \<open>spec\<close> subtrees are equal under the marshalled comparison (both absent
  equal, one absent unequal) and, if both objects have a \<open>metadata\<close> map, their labels
  and annotations are equal after the system-managed keys are removed; when either
  object has no \<open>metadata\<close> map, labels and annotations are not compared. The result
  depends on nothing but \<open>spec\<close>, the presence of \<open>metadata\<close>, and the labels and
  annotations.
\<close>

theorem resourcesEqual_iff:
  "resourcesEqual marshal (Some d) (Some a)
     = (specEqual marshal d a
        \<and> (hasMetadata d \<and> hasMetadata a
             \<longrightarrow> labelsEqual marshal d a \<and> annotationsEqual marshal d a))
   \<and> (comparedView d' = comparedView d \<and> comparedView a' = comparedView a
        \<longrightarrow> resourcesEqual marshal (Some d') (Some a')
             = resourcesEqual marshal (Some d) (Some a))"
  by (simp add: resourcesEqual_unfold comparedView_def specEqual_def labelsEqual_def
                annotationsEqual_def)

text \<open>
  The comparison at work under the canonical printer: a Helm chart label on one side
  only is ignored, a different replica count and a different team label are not.
\<close>

theorem resourcesEqual_iff_witness:
  "hasMetadata (deployment 3 [(''team'', ''web''), (''helm.sh/chart'', ''web-1.0'')])
   \<and> hasMetadata (deployment 3 [(''team'', ''web'')])
   \<and> resourcesEqual canonicalJSON
         (Some (deployment 3 [(''team'', ''web''), (''helm.sh/chart'', ''web-1.0'')]))
         (Some (deployment 3 [(''team'', ''web'')]))
   \<and> \<not> resourcesEqual canonicalJSON
           (Some (deployment 3 [(''team'', ''web'')])) (Some (deployment 5 [(''team'', ''web'')]))
   \<and> \<not> resourcesEqual canonicalJSON
           (Some (deployment 3 [(''team'', ''web'')])) (Some (deployment 3 [(''team'', ''ops'')]))"
proof -
  let ?h = "deployment 3 [(''team'', ''web''), (''helm.sh/chart'', ''web-1.0'')]"
  let ?w3 = "deployment 3 [(''team'', ''web'')]"
  let ?w5 = "deployment 5 [(''team'', ''web'')]"
  let ?o3 = "deployment 3 [(''team'', ''ops'')]"
  have m: "hasMetadata ?h" "hasMetadata ?w3" "hasMetadata ?o3"
    by code_simp+
  have a: "specEqual canonicalJSON ?h ?w3" "labelsEqual canonicalJSON ?h ?w3"
          "annotationsEqual canonicalJSON ?h ?w3"
    by code_simp+
  have b: "\<not> specEqual canonicalJSON ?w3 ?w5"
    by code_simp
  have c: "\<not> labelsEqual canonicalJSON ?w3 ?o3"
    by code_simp
  from resourcesEqual_iff[of canonicalJSON ?h ?w3 ?h ?w3] m a
  have 1: "resourcesEqual canonicalJSON (Some ?h) (Some ?w3)" by blast
  from resourcesEqual_iff[of canonicalJSON ?w3 ?w5 ?w3 ?w5] b
  have 2: "\<not> resourcesEqual canonicalJSON (Some ?w3) (Some ?w5)" by blast
  from resourcesEqual_iff[of canonicalJSON ?w3 ?o3 ?w3 ?o3] m c
  have 3: "\<not> resourcesEqual canonicalJSON (Some ?w3) (Some ?o3)" by blast
  from m 1 2 3 show ?thesis by blast
qed

text \<open>
  C6 as stated fails. The first object has no \<open>metadata\<close>, the second carries the label
  \<open>team = web\<close>; the \<open>spec\<close> subtrees agree. The label maps differ, so the comparison
  of the claim is false, and \<open>resourcesEqual\<close> returns true.
\<close>

theorem resourcesEqual_metadata_counterexample:
  "resourcesEqual canonicalJSON (Some bareDeployment) (Some (deployment 3 [(''team'', ''web'')]))
   \<and> \<not> resourcesEqualSpec canonicalJSON bareDeployment (deployment 3 [(''team'', ''web'')])"
  by code_simp

section \<open>Properties of the GitOps comparison\<close>

lemma recovery_not_mismatch: "\<not> isMismatchAlert (gitOpsRecoveryAlert rp kd nm ns)"
  by (simp add: isMismatchAlert_def gitOpsRecoveryAlert_def Let_def)

lemma match_calls:
  "webhookCalls (snd (processGitOpsMatch w nowU stamp rp manifest)) =
     webhookCalls w @
       (case gitOpsStates w (gitOpsKey rp manifest) of
          None \<Rightarrow> []
        | Some prev \<Rightarrow>
            if hasError prev \<and> alertSent prev
            then [gitOpsRecoveryAlert rp (GetKind manifest) (GetName manifest)
                    (GetNamespace manifest)]
            else [])"
  by (simp add: processGitOpsMatch_def checkGitOpsRecovery_def updateGitOpsState_def
                sendWebhookMessage_def Let_def
           split: option.splits)

lemma match_new_calls:
  "list_all (\<lambda>a. \<not> isMismatchAlert a)
     (drop (length (webhookCalls w))
        (webhookCalls (snd (processGitOpsMatch w nowU stamp rp manifest))))"
  by (simp add: match_calls recovery_not_mismatch split: option.splits)

lemma match_entry:
  "map_option (\<lambda>s. (hasError s, mismatchType s))
     (gitOpsStates (snd (processGitOpsMatch w nowU stamp rp manifest)) (gitOpsKey rp manifest))
     = Some (False, [])"
  by (simp add: processGitOpsMatch_def updateGitOpsState_def Let_def split: prod.splits)

lemma unresolved_or_failed_not_different:
  "gvrCache cl (GetKind expected) = None
     \<or> (gvrCache cl (GetKind expected) = Some gvr
          \<and> applyDryRun cl gvr (scopeOf (GetNamespace expected)) (GetName expected) expected
              = None)
   \<Longrightarrow> \<not> resourcesAreDifferent marshal cl expected actual"
  by (auto simp: resourcesAreDifferent_def getGVRForKind_def)

lemma unknown_kind_skipped:
  "gvrCache cl (GetKind manifest) = None \<Longrightarrow>
   compareManifestWithCluster marshal cl w nowU nowG stamp rp manifest
     = (Some (UnknownKind (GetKind manifest)), w)"
  by (simp add: compareManifestWithCluster_def getGVRForKind_def Let_def)

lemma failed_dry_run_is_match:
  assumes "gvrCache cl (GetKind manifest) = Some gvr"
      and "clusterGet cl gvr (scopeOf (GetNamespace manifest)) (GetName manifest)
             = GetFound actual"
      and "applyDryRun cl gvr (scopeOf (GetNamespace manifest)) (GetName manifest) manifest
             = None"
  shows "compareManifestWithCluster marshal cl w nowU nowG stamp rp manifest
           = processGitOpsMatch w nowU stamp rp manifest"
  using assms
  by (simp add: compareManifestWithCluster_def getGVRForKind_def resourcesAreDifferent_def
                Let_def)

text \<open>
  C7. When the kind's GroupVersionResource cannot be resolved inside the comparison,
  or the server-side apply dry-run fails, \<open>resourcesAreDifferent\<close> returns false; a
  kind that \<open>compareManifestWithCluster\<close> itself cannot resolve is skipped with an
  error and the state as it was. For a
  manifest whose live object was fetched and whose dry-run fails, the comparison
  therefore takes the match path: the state entry of the resource is stored without
  error and with an empty mismatch type, and no alert handed to the sink during the
  comparison is a drift alert.
\<close>

theorem dry_run_failure_treated_equal:
  "(gvrCache cl (GetKind manifest) = None
      \<longrightarrow> \<not> resourcesAreDifferent marshal cl manifest actual
          \<and> compareManifestWithCluster marshal cl w nowU nowG stamp rp manifest
              = (Some (UnknownKind (GetKind manifest)), w))
   \<and> (gvrCache cl (GetKind manifest) = Some gvr
        \<and> applyDryRun cl gvr (scopeOf (GetNamespace manifest)) (GetName manifest) manifest
            = None
      \<longrightarrow> \<not> resourcesAreDifferent marshal cl manifest actual
          \<and> (clusterGet cl gvr (scopeOf (GetNamespace manifest)) (GetName manifest)
                = GetFound actual
              \<longrightarrow> compareManifestWithCluster marshal cl w nowU nowG stamp rp manifest
                     = processGitOpsMatch w nowU stamp rp manifest
                 \<and> map_option (\<lambda>s. (hasError s, mismatchType s))
                      (gitOpsStates
                         (snd (compareManifestWithCluster marshal cl w nowU nowG stamp rp
                                 manifest))
                         (gitOpsKey rp manifest))
                     = Some (False, [])
                 \<and> list_all (\<lambda>a. \<not> isMismatchAlert a)
                      (drop (length (webhookCalls w))
                         (webhookCalls
                            (snd (compareManifestWithCluster marshal cl w nowU nowG stamp rp
                                    manifest))))))"
  using unresolved_or_failed_not_different[of cl manifest gvr marshal actual]
        unknown_kind_skipped[of cl manifest marshal w nowU nowG stamp rp]
        failed_dry_run_is_match[of cl manifest gvr actual marshal w nowU nowG stamp rp]
        match_entry[of w nowU stamp rp manifest]
        match_new_calls[of w nowU stamp rp manifest]
  by auto

text \<open>
  The drifted Deployment of \<open>driftWorld\<close>, whose alert was sent, compared against a
  cluster whose dry-run fails: the entry is stored healthy, and the one alert handed
  to the sink is the recovery alert.
\<close>

theorem dry_run_failure_treated_equal_witness:
  "gvrCache failingCluster (GetKind (deployment 3 [])) = Some deploymentsGVR
   \<and> applyDryRun failingCluster deploymentsGVR (scopeOf (GetNamespace (deployment 3 [])))
        (GetName (deployment 3 [])) (deployment 3 []) = None
   \<and> clusterGet failingCluster deploymentsGVR (scopeOf (GetNamespace (deployment 3 [])))
        (GetName (deployment 3 [])) = GetFound (deployment 5 [])
   \<and> gitOpsKey ''infra'' (deployment 3 []) = driftKey
   \<and> \<not> resourcesAreDifferent canonicalJSON failingCluster (deployment 3 []) (deployment 5 [])
   \<and> map_option (\<lambda>s. (hasError s, mismatchType s))
        (gitOpsStates
           (snd (compareManifestWithCluster canonicalJSON failingCluster driftWorld 2000 2000
                   stampT ''infra'' (deployment 3 [])))
           driftKey)
       = Some (False, [])
   \<and> list_all (\<lambda>a. \<not> isMismatchAlert a)
        (drop (length (webhookCalls driftWorld))
           (webhookCalls
              (snd (compareManifestWithCluster canonicalJSON failingCluster driftWorld 2000 2000
                      stampT ''infra'' (deployment 3 [])))))"
proof -
  have k: "GetKind (deployment 3 []) = ''Deployment''"
          "GetName (deployment 3 []) = ''web''"
          "GetNamespace (deployment 3 []) = ''default''"
    by (simp_all add: GetKind_def GetName_def GetNamespace_def getNestedString_def
                      NestedString_def deployment_def stringMapValue_def)
  have g: "gvrCache failingCluster (GetKind (deployment 3 [])) = Some deploymentsGVR"
    by (simp add: k failingCluster_def)
  have d: "applyDryRun failingCluster deploymentsGVR (scopeOf (GetNamespace (deployment 3 [])))
             (GetName (deployment 3 [])) (deployment 3 []) = None"
    by (simp add: failingCluster_def)
  have c: "clusterGet failingCluster deploymentsGVR (scopeOf (GetNamespace (deployment 3 [])))
             (GetName (deployment 3 [])) = GetFound (deployment 5 [])"
    by (simp add: failingCluster_def)
  have key: "gitOpsKey ''infra'' (deployment 3 []) = driftKey"
    by (simp add: gitOpsKey_def k driftKey_def)
  note t = dry_run_failure_treated_equal[where cl = failingCluster
             and manifest = "deployment 3 []" and marshal = canonicalJSON
             and actual = "deployment 5 []" and gvr = deploymentsGVR and w = driftWorld
             and nowU = 2000 and nowG = 2000 and stamp = stampT and rp = "''infra''"]
  from t g d c
  have r1: "\<not> resourcesAreDifferent canonicalJSON failingCluster (deployment 3 [])
                (deployment 5 [])"
    by blast
  from t g d c
  have r2: "map_option (\<lambda>s. (hasError s, mismatchType s))
              (gitOpsStates
                 (snd (compareManifestWithCluster canonicalJSON failingCluster driftWorld 2000
                         2000 stampT ''infra'' (deployment 3 [])))
                 (gitOpsKey ''infra'' (deployment 3 [])))
             = Some (False, [])"
    by blast
  from t g d c
  have r3: "list_all (\<lambda>a. \<not> isMismatchAlert a)
              (drop (length (webhookCalls driftWorld))
                 (webhookCalls
                    (snd (compareManifestWithCluster canonicalJSON failingCluster driftWorld
                            2000 2000 stampT ''infra'' (deployment 3 [])))))"
    by blast
  from g d c key r1 r2[unfolded key] r3 show ?thesis
    by (intro conjI)
qed

section \<open>Properties of the environment file copy\<close>



lemma env_names_differ [simp]: "envName \<noteq> envExampleName" "envExampleName \<noteq> envName"
  by (simp_all add: envName_def envExampleName_def)




lemma walkEntries_envTrue:
  "walkEntries wr True es = (e, es', cr) \<Longrightarrow> cr = None"
proof (induction wr "True" es arbitrary: e es' cr rule: walkEntries.induct)
  case (1 wr)
  then show ?case by simp
next
  case (2 wr n rd content rest)
  then show ?case by (auto split: if_splits prod.splits)
next
  case (3 wr n l w es rest)
  then show ?case by (auto split: if_splits prod.splits option.splits)
qed









lemma walkRoot_envTrue:
  "walkRoot wr True rootName es = (e, es', cr) \<Longrightarrow> cr = None"
proof (induction es arbitrary: e es' cr)
  case Nil then show ?case by simp
next
  case (Cons a es)
  obtain n c where a: "a = (n, c)" by (cases a)
  show ?case
  proof (cases "n = rootName")
    case True
    obtain e1 one cr1 where w: "walkEntries wr True [(n, c)] = (e1, one, cr1)"
      by (cases "walkEntries wr True [(n, c)]")
    from walkEntries_envTrue[OF w] Cons.prems a True w show ?thesis by auto
  next
    case False
    with Cons a show ?thesis by (auto split: prod.splits)
  qed
qed




































end
